theory Spec2Isabelle
  imports Complex_Main "HOL-Library.Multiset"
begin

section \<open>Values read from the source tables\<close>

text \<open>
  The recommender (\<^verbatim>\<open>recommendersystem2.py\<close>) reads its tables with pandas. A cell of a
  loosely typed column is \<^verbatim>\<open>None\<close>, a NaN (a missing CSV cell), a Python \<^verbatim>\<open>bool\<close>, a
  string, or a number. Numbers are modelled as reals: Python's \<^verbatim>\<open>int\<close> and the non-NaN
  \<^verbatim>\<open>float\<close> values. The definitions of the first sections compute with exact
  arithmetic; a later section gives the functions whose results depend on the rounding
  of doubles a second time, over any arithmetic. A NaN in a numeric column (a missing
  walk indicator or rent) is outside the model. Strings are lists of 8-bit characters,
  the code points below 256; text with other code points is outside the model.
\<close>

datatype pyval = PNone | PNaN | PBool bool | PStr string | PNum real

datatype error = KeyError | TypeError | ZeroDivisionError

text \<open>\<^verbatim>\<open>pd.isna(value)\<close> on a scalar.\<close>

fun isna :: "pyval \<Rightarrow> bool" where
  "isna PNone = True"
| "isna PNaN = True"
| "isna (PBool b) = False"
| "isna (PStr s) = False"
| "isna (PNum x) = False"

text \<open>
  Python truthiness, \<^verbatim>\<open>bool(value)\<close> and \<^verbatim>\<open>if value:\<close>. A NaN is a nonzero float and so
  is true; a string is true unless it is empty.
\<close>

fun truthy :: "pyval \<Rightarrow> bool" where
  "truthy PNone = False"
| "truthy PNaN = True"
| "truthy (PBool b) = b"
| "truthy (PStr s) = (s \<noteq> [])"
| "truthy (PNum x) = (x \<noteq> 0)"

text \<open>
  \<^verbatim>\<open>str.lower()\<close> on the ASCII letters; every other character is left as it is. Among
  the code points below 256, Python also lowers the capital letters above 127, each to a
  letter above 127: the results of \<^verbatim>\<open>lower()\<close> are only compared with ASCII words, which
  cannot tell such a letter from its capital. (Of the code points the model does not
  have, U+212A lowers to \<open>k\<close> and U+0130 to \<open>i\<close> followed by a combining dot.)
\<close>

definition lower_char :: "char \<Rightarrow> char" where
  "lower_char c =
     (case map_of (zip ''ABCDEFGHIJKLMNOPQRSTUVWXYZ'' ''abcdefghijklmnopqrstuvwxyz'') c of
        Some l \<Rightarrow> l
      | None \<Rightarrow> c)"

definition lower :: "string \<Rightarrow> string" where
  "lower s = map lower_char s"

text \<open>\<^verbatim>\<open>pb in breed_lower\<close>: the substring test of Python strings.\<close>

fun starts_with :: "string \<Rightarrow> string \<Rightarrow> bool" where
  "starts_with [] s = True"
| "starts_with (p # ps) [] = False"
| "starts_with (p # ps) (c # cs) = (p = c \<and> starts_with ps cs)"

fun py_in :: "string \<Rightarrow> string \<Rightarrow> bool" where
  "py_in p [] = (p = [])"
| "py_in p (c # cs) = (starts_with p (c # cs) \<or> py_in p cs)"

text \<open>
  \<^verbatim>\<open>round(x, n)\<close>: the nearest multiple of \<open>10^-n\<close>, a tie going to the even one. On a
  Python \<^verbatim>\<open>int\<close> with \<open>n = 0\<close> it returns the integer itself, which this agrees with.
\<close>

definition round_half_even :: "real \<Rightarrow> int" where
  "round_half_even x =
     (let f = \<lfloor>x\<rfloor>; d = x - of_int f
      in if d < 1 / 2 then f else if 1 / 2 < d then f + 1 else if even f then f else f + 1)"

definition py_round :: "real \<Rightarrow> nat \<Rightarrow> real" where
  "py_round x n = of_int (round_half_even (x * 10 ^ n)) / 10 ^ n"

section \<open>Dog profile builder\<close>

text \<open>\<^verbatim>\<open>_parse_boolean_safe\<close>\<close>

definition parse_boolean_safe :: "pyval \<Rightarrow> bool" where
  "parse_boolean_safe v =
     (if isna v then False
      else case v of
        PBool b \<Rightarrow> b
      | PStr s \<Rightarrow> lower s \<in> set [''true'', ''yes'', ''1'', ''y'']
      | _ \<Rightarrow> truthy v)"

text \<open>\<^verbatim>\<open>_calculate_protection_score\<close>\<close>

definition protective_breeds :: "string list" where
  "protective_breeds =
     [''german shepherd'', ''pit bull'', ''rottweiler'', ''mastiff'',
      ''doberman'', ''boxer'', ''bulldog'', ''belgian'', ''akita'']"

definition calculate_protection_score :: "string \<Rightarrow> string \<Rightarrow> string \<Rightarrow> real" where
  "calculate_protection_score sz breed age =
     (let score = 40;
          score = (if sz = ''Large'' then score + 30
                   else if sz = ''Medium'' then score + 20
                   else if sz = ''Extra Large'' then score + 35
                   else if sz = ''Small'' then score + 5
                   else score);
          breed_lower = lower breed;
          score = (if list_ex (\<lambda>pb. py_in pb breed_lower) protective_breeds
                   then score + 25 else score);
          score = (if age \<in> set [''Adult'', ''Senior''] then score + 10
                   else if age = ''Young'' then score + 5
                   else score)
      in min 100 score)"

text \<open>
  A row of the animal table. The text columns hold the result of \<^verbatim>\<open>str(...)\<close> on the
  cell; the loosely typed boolean columns hold the cell, or \<open>None\<close> when the table has no
  such column (\<^verbatim>\<open>dog.get(key)\<close> then yields its default).
\<close>

record dog_row =
  r_name :: pyval
  r_primary_breed :: string
  r_size :: string
  r_age :: string
  r_special_needs :: "pyval option"
  r_good_with_children :: "pyval option"
  r_house_trained :: "pyval option"
  r_shots_current :: "pyval option"
  r_spayed_neutered :: "pyval option"
  r_organization_id :: string
  r_description :: string
  r_url :: string
  r_photo_medium :: string

text \<open>\<^verbatim>\<open>dog.get(key)\<close> and \<^verbatim>\<open>dog.get(key, default)\<close> on an optional column.\<close>

definition get_or :: "pyval option \<Rightarrow> pyval \<Rightarrow> pyval" where
  "get_or cell dflt = (case cell of None \<Rightarrow> dflt | Some v \<Rightarrow> v)"

text \<open>\<^verbatim>\<open>_calculate_family_score\<close>\<close>

definition calculate_family_score :: "dog_row \<Rightarrow> real" where
  "calculate_family_score row =
     (let score = 60;
          score = (if parse_boolean_safe (get_or (r_good_with_children row) PNone)
                   then score + 30 else score);
          score = (if parse_boolean_safe (get_or (r_house_trained row) PNone)
                   then score + 15 else score);
          score = (if parse_boolean_safe (get_or (r_shots_current row) PNone)
                   then score + 10 else score);
          score = (if parse_boolean_safe (get_or (r_spayed_neutered row) PNone)
                   then score + 10 else score);
          score = (if \<not> parse_boolean_safe (get_or (r_special_needs row) PNone)
                   then score + 5 else score)
      in min 100 score)"

text \<open>\<^verbatim>\<open>_calculate_training_score\<close>\<close>

definition calculate_training_score :: "dog_row \<Rightarrow> string \<Rightarrow> real" where
  "calculate_training_score row age =
     (let score = 50;
          score = (if parse_boolean_safe (get_or (r_house_trained row) PNone)
                   then score + 30 else score);
          score = (if age = ''Young'' then score + 20
                   else if age = ''Adult'' then score + 15
                   else if age = ''Baby'' then score + 10
                   else score);
          score = (if \<not> parse_boolean_safe (get_or (r_special_needs row) PNone)
                   then score + 15 else score)
      in min 100 score)"

text \<open>
  \<^verbatim>\<open>_calculate_monthly_cost\<close>. The flag is tested as Python tests any object,
  \<^verbatim>\<open>if special_needs:\<close>, on the cell as it comes from the row.
\<close>

definition base_costs :: "string \<rightharpoonup> real" where
  "base_costs = [''Small'' \<mapsto> 70, ''Medium'' \<mapsto> 95, ''Large'' \<mapsto> 125, ''Extra Large'' \<mapsto> 155]"

definition calculate_monthly_cost :: "string \<Rightarrow> pyval \<Rightarrow> real" where
  "calculate_monthly_cost sz special_needs =
     (let cost = (case base_costs sz of Some c \<Rightarrow> c | None \<Rightarrow> 95);
          cost = (if truthy special_needs then cost * 1.4 else cost)
      in py_round cost 0)"

text \<open>\<^verbatim>\<open>_get_shelter_info\<close>: the first organization with the id, or the placeholder.\<close>

record organization =
  organization_id :: string
  org_name :: string
  org_phone :: string
  org_email :: string

record shelter_info =
  si_name :: string
  si_phone :: string
  si_email :: string

definition get_shelter_info :: "string \<Rightarrow> organization list \<Rightarrow> shelter_info" where
  "get_shelter_info org_id organizations =
     (case filter (\<lambda>org. organization_id org = org_id) organizations of
        org # _ \<Rightarrow>
          \<lparr>si_name = take 40 (org_name org), si_phone = org_phone org, si_email = org_email org\<rparr>
      | [] \<Rightarrow>
          \<lparr>si_name = ''Local SF Shelter'', si_phone = ''(415) 555-0000'',
           si_email = ''info@shelter.org''\<rparr>)"

text \<open>
  A dog of the catalog: the dictionary appended by \<^verbatim>\<open>_process_dog_data\<close>. Its last four
  fields are the keys that a recommendation request writes; \<open>None\<close> is the key being
  absent, as it is when the catalog is built.
\<close>

record dog =
  name :: string
  breed :: string
  dog_size :: string
  age :: string
  protection_score :: real
  family_score :: real
  training_score :: real
  monthly_cost :: real
  good_with_children :: bool
  house_trained :: bool
  shelter :: string
  shelter_phone :: string
  description :: string
  adoption_url :: string
  photo_url :: string
  compatibility_score :: "real option"
  safety_improvement :: "real option"
  monthly_exercise :: "real option"
  deterrent_effect :: "string option"

text \<open>
  The body of the loop of \<^verbatim>\<open>_process_dog_data\<close> for one row. Slicing the name cell,
  \<^verbatim>\<open>dog.get('name', ...)[:30]\<close>, raises on a cell that is not a string.
\<close>

definition process_dog :: "organization list \<Rightarrow> dog_row \<Rightarrow> error + dog" where
  "process_dog sf_orgs row =
     (case r_name row of
        PStr nm \<Rightarrow>
          (let name' = take 30 nm;
               breed' = take 30 (r_primary_breed row);
               size' = r_size row;
               age' = r_age row;
               protection_score' = calculate_protection_score size' breed' age';
               family_score' = calculate_family_score row;
               training_score' = calculate_training_score row age';
               monthly_cost' =
                 calculate_monthly_cost size' (get_or (r_special_needs row) (PBool False));
               shelter_info' = get_shelter_info (r_organization_id row) sf_orgs;
               good_with_children' = parse_boolean_safe (get_or (r_good_with_children row) PNone);
               house_trained' = parse_boolean_safe (get_or (r_house_trained row) PNone);
               description' = r_description row;
               description' = (if length description' > 150
                               then take 150 description' @ ''...'' else description')
           in Inr \<lparr>name = name', breed = breed', dog_size = size', age = age',
                   protection_score = protection_score', family_score = family_score',
                   training_score = training_score', monthly_cost = monthly_cost',
                   good_with_children = good_with_children', house_trained = house_trained',
                   shelter = si_name shelter_info', shelter_phone = si_phone shelter_info',
                   description = description', adoption_url = r_url row,
                   photo_url = r_photo_medium row,
                   compatibility_score = None, safety_improvement = None,
                   monthly_exercise = None, deterrent_effect = None\<rparr>)
      | _ \<Rightarrow> Inl TypeError)"

text \<open>
  The loop itself: a row whose processing raises is skipped. The rows are the ones that
  survived the species and organization filters.
\<close>

fun process_dog_data :: "organization list \<Rightarrow> dog_row list \<Rightarrow> dog list" where
  "process_dog_data sf_orgs [] = []"
| "process_dog_data sf_orgs (row # rows) =
     (case process_dog sf_orgs row of
        Inl e \<Rightarrow> process_dog_data sf_orgs rows
      | Inr d \<Rightarrow> d # process_dog_data sf_orgs rows)"

section \<open>Neighborhood profile builder\<close>

record neighborhood =
  safety_score :: real
  walkability_score :: real
  avg_rent :: real
  crime_count :: nat
  protection_need :: string
  budget_limit :: real
  walk_index :: real

text \<open>\<^verbatim>\<open>Series.mean()\<close> of a column with at least one value.\<close>

definition mean :: "real list \<Rightarrow> real" where
  "mean xs = sum_list xs / real (length xs)"

text \<open>
  The derived metrics of \<^verbatim>\<open>_process_neighborhood_data\<close>, one definition for each local
  variable of the loop body.
\<close>

definition safety_score_of :: "nat \<Rightarrow> real" where
  "safety_score_of crime_count' = max 0 (100 - (real crime_count' / 200 * 100))"

definition walkability_score_of :: "real \<Rightarrow> real" where
  "walkability_score_of walk_score = min 100 ((walk_score / 20) * 100)"

definition protection_need_of :: "real \<Rightarrow> string" where
  "protection_need_of safety_score' =
     (if safety_score' < 40 then ''Very High''
      else if safety_score' < 60 then ''High''
      else if safety_score' < 80 then ''Medium''
      else ''Low'')"

definition budget_limit_of :: "real \<Rightarrow> real" where
  "budget_limit_of avg_rent' = max 50 (avg_rent' * 0.05)"

text \<open>
  The three tables: the neighborhood column of the crime table, and the neighborhood
  column paired with the walk indicator (walkability table) or the average rent (rental
  table). A missing neighborhood cell is \<open>None\<close> and equals no name.
\<close>

type_synonym crime_table = "string option list"
type_synonym keyed_table = "(string option \<times> real) list"

definition rows_of :: "keyed_table \<Rightarrow> string \<Rightarrow> real list" where
  "rows_of df nbhd = map snd (filter (\<lambda>row. fst row = Some nbhd) df)"

definition process_neighborhood ::
  "keyed_table \<Rightarrow> crime_table \<Rightarrow> keyed_table \<Rightarrow> string \<Rightarrow> neighborhood" where
  "process_neighborhood rental_df crime_df walkability_df nbhd =
     (let crime_count' = length (filter (\<lambda>c. c = Some nbhd) crime_df);
          neighborhood_walk = rows_of walkability_df nbhd;
          walk_score = (if length neighborhood_walk > 0 then mean neighborhood_walk else 10);
          neighborhood_rent = rows_of rental_df nbhd;
          avg_rent' = (if length neighborhood_rent > 0 then mean neighborhood_rent else 3000);
          safety_score' = safety_score_of crime_count';
          walkability_score' = walkability_score_of walk_score;
          protection_need' = protection_need_of safety_score';
          budget_limit' = budget_limit_of avg_rent'
      in \<lparr>safety_score = py_round safety_score' 1,
          walkability_score = py_round walkability_score' 1,
          avg_rent = py_round avg_rent' 0,
          crime_count = crime_count',
          protection_need = protection_need',
          budget_limit = py_round budget_limit' 0,
          walk_index = py_round walk_score 1\<rparr>)"

text \<open>
  The dictionary of profiles, one entry for each distinct name of the rental table. The
  entries do not depend on the order in which the names are visited.
\<close>

definition process_neighborhood_data ::
  "keyed_table \<Rightarrow> crime_table \<Rightarrow> keyed_table \<Rightarrow> (string \<rightharpoonup> neighborhood)" where
  "process_neighborhood_data rental_df crime_df walkability_df =
     fold (\<lambda>nbhd neighborhoods.
             neighborhoods(nbhd \<mapsto> process_neighborhood rental_df crime_df walkability_df nbhd))
          (remdups (List.map_filter fst rental_df)) Map.empty"

section \<open>Scoring engine\<close>

text \<open>\<^verbatim>\<open>_calculate_safety_match\<close>\<close>

definition calculate_safety_match :: "neighborhood \<Rightarrow> dog \<Rightarrow> real" where
  "calculate_safety_match neighborhood_data d =
     (let protection_need' = protection_need neighborhood_data;
          dog_protection = protection_score d
      in if protection_need' = ''Very High'' then min 100 (dog_protection * 1.2)
         else if protection_need' = ''High'' then dog_protection
         else if protection_need' = ''Medium'' then 100 - \<bar>dog_protection - 60\<bar> * 0.5
         else (if dog_protection > 40 then 100 - (dog_protection - 40) * 0.3 else 100))"

text \<open>\<^verbatim>\<open>_calculate_budget_match\<close>; the division raises on a zero budget.\<close>

definition calculate_budget_match :: "neighborhood \<Rightarrow> dog \<Rightarrow> error + real" where
  "calculate_budget_match neighborhood_data d =
     (let budget_limit' = budget_limit neighborhood_data;
          dog_cost = monthly_cost d
      in if dog_cost \<le> budget_limit' then Inr 100
         else if dog_cost \<le> budget_limit' * 1.2 then Inr 80
         else if budget_limit' = 0 then Inl ZeroDivisionError
         else Inr (max 0 (100 - (dog_cost - budget_limit') / budget_limit' * 100)))"

text \<open>\<^verbatim>\<open>_calculate_preference_match\<close>; the dictionary lookup raises on an unknown key.\<close>

definition pref_scores :: "string \<rightharpoonup> real \<times> real" where
  "pref_scores =
     [''Low'' \<mapsto> (0, 40), ''Medium'' \<mapsto> (40, 70), ''High'' \<mapsto> (70, 85),
      ''Very High'' \<mapsto> (85, 100)]"

definition calculate_preference_match :: "string \<Rightarrow> dog \<Rightarrow> error + real" where
  "calculate_preference_match protection_pref d =
     (case pref_scores protection_pref of
        None \<Rightarrow> Inl KeyError
      | Some (min_score, max_score) \<Rightarrow>
          (let dog_score = protection_score d
           in if min_score \<le> dog_score \<and> dog_score \<le> max_score then Inr 100
              else (let distance = min \<bar>dog_score - min_score\<bar> \<bar>dog_score - max_score\<bar>
                    in Inr (max 0 (100 - distance * 2)))))"

text \<open>
  The body of the scoring loop of \<^verbatim>\<open>_get_personalized_recommendations\<close>: the three
  matches are computed first, then the four keys are written to the dog.
\<close>

definition score_dog :: "neighborhood \<Rightarrow> string \<Rightarrow> dog \<Rightarrow> error + dog" where
  "score_dog neighborhood_data protection_pref d =
     (let safety_match = calculate_safety_match neighborhood_data d
      in case calculate_budget_match neighborhood_data d of
           Inl e \<Rightarrow> Inl e
         | Inr budget_match \<Rightarrow>
             (case calculate_preference_match protection_pref d of
                Inl e \<Rightarrow> Inl e
              | Inr preference_match \<Rightarrow>
                  Inr (d\<lparr>compatibility_score :=
                            Some (safety_match * 0.4 + budget_match * 0.3
                                  + preference_match * 0.3),
                          safety_improvement := Some (min 30 (protection_score d * 0.3)),
                          monthly_exercise := Some (60 + (protection_score d * 0.5)),
                          deterrent_effect :=
                            Some (if protection_score d \<ge> 80 then ''High''
                                  else if protection_score d \<ge> 60 then ''Medium''
                                  else ''Low'')\<rparr>)))"

section \<open>Recommendation ranker\<close>

text \<open>
  The catalog \<^verbatim>\<open>self.real_data['dogs']\<close> is a list of references to dictionaries. The
  store maps a reference to the dictionary it points to; \<^verbatim>\<open>list.copy()\<close> and the list
  comprehension build new lists of the same references, and \<^verbatim>\<open>dog[key] = v\<close> writes
  through the reference.
\<close>

type_synonym ref = nat
type_synonym store = "ref \<Rightarrow> dog"

text \<open>
  \<^verbatim>\<open>self.real_data['dogs']\<close> after \<^verbatim>\<open>_load_real_data\<close>: the dictionary appended at
  position \<open>i\<close> is the object behind reference \<open>i\<close>, and the catalog lists these
  references in order.
\<close>

definition catalog_refs :: "dog list \<Rightarrow> ref list" where
  "catalog_refs dogs = [0..<length dogs]"

definition catalog_store :: "dog list \<Rightarrow> store" where
  "catalog_store dogs = (\<lambda>r. dogs ! r)"

text \<open>The loop \<^verbatim>\<open>for dog in dogs\<close>: it stops at the first dog that raises.\<close>

fun score_loop :: "neighborhood \<Rightarrow> string \<Rightarrow> ref list \<Rightarrow> store \<Rightarrow> store \<times> error option" where
  "score_loop neighborhood_data protection_pref [] s = (s, None)"
| "score_loop neighborhood_data protection_pref (r # rs) s =
     (case score_dog neighborhood_data protection_pref (s r) of
        Inl e \<Rightarrow> (s, Some e)
      | Inr d \<Rightarrow> score_loop neighborhood_data protection_pref rs (s(r := d)))"

text \<open>
  \<^verbatim>\<open>list.sort(key=..., reverse=True)\<close>: the list is reversed, sorted by a stable
  ascending sort, and reversed again.
\<close>

definition py_sort_reverse :: "('a \<Rightarrow> real) \<Rightarrow> 'a list \<Rightarrow> 'a list" where
  "py_sort_reverse key xs = rev (sort_key key (rev xs))"

text \<open>
  \<^verbatim>\<open>_get_personalized_recommendations\<close>. The key function of the sort reads
  \<^verbatim>\<open>x['compatibility_score']\<close> and raises on a dog without that key.
\<close>

definition get_personalized_recommendations ::
  "neighborhood \<Rightarrow> string \<Rightarrow> string \<Rightarrow> ref list \<Rightarrow> store \<Rightarrow> store \<times> (error + ref list)" where
  "get_personalized_recommendations neighborhood_data size_pref protection_pref catalog s =
     (let dogs = catalog;
          dogs = (if size_pref \<noteq> ''Any''
                  then filter (\<lambda>r. dog_size (s r) = size_pref) dogs else dogs)
      in case score_loop neighborhood_data protection_pref dogs s of
           (s', Some e) \<Rightarrow> (s', Inl e)
         | (s', None) \<Rightarrow>
             (if list_all (\<lambda>r. compatibility_score (s' r) \<noteq> None) dogs
              then (s', Inr (take 5
                      (py_sort_reverse (\<lambda>r. the (compatibility_score (s' r))) dogs)))
              else (s', Inl KeyError)))"

section \<open>Impact summarizer\<close>

record impact_metrics =
  current_safety_score :: real
  new_safety_score :: real
  im_safety_improvement :: real
  dogs_saved :: nat
  monthly_walking_hours :: real
  im_deterrent_effect :: string
  community_connections :: string

text \<open>
  \<^verbatim>\<open>_calculate_impact_metrics\<close>. The empty dictionary \<^verbatim>\<open>{}\<close> is \<open>None\<close>; reading a
  per-request key that the top dog does not have raises.
\<close>

definition calculate_impact_metrics ::
  "neighborhood \<Rightarrow> dog list \<Rightarrow> error + impact_metrics option" where
  "calculate_impact_metrics neighborhood_data recommended_dogs =
     (case recommended_dogs of
        [] \<Rightarrow> Inr None
      | top_dog # _ \<Rightarrow>
          (let current_safety = safety_score neighborhood_data
           in case safety_improvement top_dog of
                None \<Rightarrow> Inl KeyError
              | Some safety_boost \<Rightarrow>
                  (let new_safety_score' = min 100 (current_safety + safety_boost);
                       dogs_saved' = length recommended_dogs
                   in case monthly_exercise top_dog of
                        None \<Rightarrow> Inl KeyError
                      | Some walking_minutes \<Rightarrow>
                          (let monthly_walking_hours' = walking_minutes * 30 / 60
                           in case deterrent_effect top_dog of
                                None \<Rightarrow> Inl KeyError
                              | Some deterrent \<Rightarrow>
                                  Inr (Some
                                    \<lparr>current_safety_score = current_safety,
                                     new_safety_score = new_safety_score',
                                     im_safety_improvement = safety_boost,
                                     dogs_saved = dogs_saved',
                                     monthly_walking_hours = monthly_walking_hours',
                                     im_deterrent_effect = deterrent,
                                     community_connections =
                                       (if walking_minutes > 75 then ''High''
                                        else ''Medium'')\<rparr>)))))"

section \<open>Recommendation entry point\<close>

text \<open>
  \<^verbatim>\<open>update_recommendations\<close>, up to the values it hands to the presentation layer: the
  prompt, the not-found page, or the arguments of \<^verbatim>\<open>_create_results_layout\<close> (the
  neighborhood, its profile, the ranked dogs as the references then read, and the impact
  metrics). The neighborhood is \<open>None\<close> while the dropdown has no selection.
\<close>

datatype response =
  SelectPrompt
| NotFound string
| ResultsLayout string neighborhood "dog list" "impact_metrics option"

definition update_recommendations ::
  "(string \<rightharpoonup> neighborhood) \<Rightarrow> ref list \<Rightarrow> int \<Rightarrow> string option \<Rightarrow> string \<Rightarrow> string \<Rightarrow>
   store \<Rightarrow> store \<times> (error + response)" where
  "update_recommendations neighborhoods catalog n_clicks nbhd size_pref protection_pref s =
     (if n_clicks = 0 \<or> nbhd = None \<or> nbhd = Some [] then (s, Inr SelectPrompt)
      else case neighborhoods (the nbhd) of
        None \<Rightarrow> (s, Inr (NotFound (the nbhd)))
      | Some neighborhood_data \<Rightarrow>
          (case get_personalized_recommendations neighborhood_data size_pref protection_pref
                  catalog s of
             (s', Inl e) \<Rightarrow> (s', Inl e)
           | (s', Inr recommended) \<Rightarrow>
               (let recommended_dogs = map s' recommended
                in case calculate_impact_metrics neighborhood_data recommended_dogs of
                     Inl e \<Rightarrow> (s', Inl e)
                   | Inr impact \<Rightarrow>
                       (s', Inr (ResultsLayout (the nbhd) neighborhood_data
                                   recommended_dogs impact)))))"

section \<open>The same functions over machine arithmetic\<close>

text \<open>
  The definitions above compute with exact reals. Python computes with IEEE doubles: a
  decimal literal such as \<^verbatim>\<open>0.3\<close> denotes the nearest double, every operation rounds its
  result, and \<^verbatim>\<open>round\<close> and \<^verbatim>\<open>mean\<close> work on the rounded values. Where a stored digit or the
  order of two scores depends on that rounding, the exact definitions and the program can
  differ. The definitions of this section follow the same source lines with the
  arithmetic as a parameter: a record of the operations, of which nothing is assumed. A
  double is the real number it denotes, and comparisons, \<^verbatim>\<open>min\<close>, \<^verbatim>\<open>max\<close> and \<^verbatim>\<open>abs\<close> are
  exact on doubles. What is proved of these definitions for every arithmetic holds for
  the program's arithmetic; \<open>exact_arith\<close> gives back the exact definitions.
\<close>

record arith =
  f_lit :: "real \<Rightarrow> real"
  f_add :: "real \<Rightarrow> real \<Rightarrow> real"
  f_sub :: "real \<Rightarrow> real \<Rightarrow> real"
  f_mul :: "real \<Rightarrow> real \<Rightarrow> real"
  f_div :: "real \<Rightarrow> real \<Rightarrow> real"
  f_mean :: "real list \<Rightarrow> real"
  f_round :: "real \<Rightarrow> nat \<Rightarrow> real"

definition exact_arith :: arith where
  "exact_arith =
     \<lparr>f_lit = (\<lambda>x. x), f_add = (\<lambda>x y. x + y), f_sub = (\<lambda>x y. x - y),
      f_mul = (\<lambda>x y. x * y), f_div = (\<lambda>x y. x / y), f_mean = mean, f_round = py_round\<rparr>"

text \<open>
  \<^verbatim>\<open>_process_neighborhood_data\<close>, lines 83 to 126. The product
  \<^verbatim>\<open>(walk_score / 20) * 100\<close> of line 103 has a definition of its own.
\<close>

definition walk_product :: "arith \<Rightarrow> real \<Rightarrow> real" where
  "walk_product ar walk_score = f_mul ar (f_div ar walk_score 20) 100"

definition walkability_score_with :: "arith \<Rightarrow> real \<Rightarrow> real" where
  "walkability_score_with ar walk_score = min 100 (walk_product ar walk_score)"

definition safety_score_with :: "arith \<Rightarrow> nat \<Rightarrow> real" where
  "safety_score_with ar crime_count' =
     max 0 (f_sub ar 100 (f_mul ar (f_div ar (real crime_count') 200) 100))"

definition budget_limit_with :: "arith \<Rightarrow> real \<Rightarrow> real" where
  "budget_limit_with ar avg_rent' = max 50 (f_mul ar avg_rent' (f_lit ar 0.05))"

definition walk_score_with :: "arith \<Rightarrow> keyed_table \<Rightarrow> string \<Rightarrow> real" where
  "walk_score_with ar walkability_df nbhd =
     (let neighborhood_walk = rows_of walkability_df nbhd
      in if length neighborhood_walk > 0 then f_mean ar neighborhood_walk else 10)"

definition process_neighborhood_with ::
  "arith \<Rightarrow> keyed_table \<Rightarrow> crime_table \<Rightarrow> keyed_table \<Rightarrow> string \<Rightarrow> neighborhood" where
  "process_neighborhood_with ar rental_df crime_df walkability_df nbhd =
     (let crime_count' = length (filter (\<lambda>c. c = Some nbhd) crime_df);
          walk_score = walk_score_with ar walkability_df nbhd;
          neighborhood_rent = rows_of rental_df nbhd;
          avg_rent' = (if length neighborhood_rent > 0 then f_mean ar neighborhood_rent
                       else 3000);
          safety_score' = safety_score_with ar crime_count';
          walkability_score' = walkability_score_with ar walk_score;
          protection_need' = protection_need_of safety_score';
          budget_limit' = budget_limit_with ar avg_rent'
      in \<lparr>safety_score = f_round ar safety_score' 1,
          walkability_score = f_round ar walkability_score' 1,
          avg_rent = f_round ar avg_rent' 0,
          crime_count = crime_count',
          protection_need = protection_need',
          budget_limit = f_round ar budget_limit' 0,
          walk_index = f_round ar walk_score 1\<rparr>)"

text \<open>\<^verbatim>\<open>_calculate_safety_match\<close>, \<^verbatim>\<open>_calculate_budget_match\<close>, \<^verbatim>\<open>_calculate_preference_match\<close>\<close>

definition calculate_safety_match_with :: "arith \<Rightarrow> neighborhood \<Rightarrow> dog \<Rightarrow> real" where
  "calculate_safety_match_with ar neighborhood_data d =
     (let protection_need' = protection_need neighborhood_data;
          dog_protection = protection_score d
      in if protection_need' = ''Very High''
         then min 100 (f_mul ar dog_protection (f_lit ar 1.2))
         else if protection_need' = ''High'' then dog_protection
         else if protection_need' = ''Medium''
         then f_sub ar 100 (f_mul ar \<bar>f_sub ar dog_protection 60\<bar> (f_lit ar 0.5))
         else (if dog_protection > 40
               then f_sub ar 100 (f_mul ar (f_sub ar dog_protection 40) (f_lit ar 0.3))
               else 100))"

definition calculate_budget_match_with :: "arith \<Rightarrow> neighborhood \<Rightarrow> dog \<Rightarrow> error + real" where
  "calculate_budget_match_with ar neighborhood_data d =
     (let budget_limit' = budget_limit neighborhood_data;
          dog_cost = monthly_cost d
      in if dog_cost \<le> budget_limit' then Inr 100
         else if dog_cost \<le> f_mul ar budget_limit' (f_lit ar 1.2) then Inr 80
         else if budget_limit' = 0 then Inl ZeroDivisionError
         else Inr (max 0 (f_sub ar 100
                 (f_mul ar (f_div ar (f_sub ar dog_cost budget_limit') budget_limit') 100))))"

definition calculate_preference_match_with :: "arith \<Rightarrow> string \<Rightarrow> dog \<Rightarrow> error + real" where
  "calculate_preference_match_with ar protection_pref d =
     (case pref_scores protection_pref of
        None \<Rightarrow> Inl KeyError
      | Some (min_score, max_score) \<Rightarrow>
          (let dog_score = protection_score d
           in if min_score \<le> dog_score \<and> dog_score \<le> max_score then Inr 100
              else (let distance = min \<bar>f_sub ar dog_score min_score\<bar>
                                       \<bar>f_sub ar dog_score max_score\<bar>
                    in Inr (max 0 (f_sub ar 100 (f_mul ar distance 2))))))"

text \<open>The body of the scoring loop, lines 810 to 824.\<close>

definition score_dog_with :: "arith \<Rightarrow> neighborhood \<Rightarrow> string \<Rightarrow> dog \<Rightarrow> error + dog" where
  "score_dog_with ar neighborhood_data protection_pref d =
     (let safety_match = calculate_safety_match_with ar neighborhood_data d
      in case calculate_budget_match_with ar neighborhood_data d of
           Inl e \<Rightarrow> Inl e
         | Inr budget_match \<Rightarrow>
             (case calculate_preference_match_with ar protection_pref d of
                Inl e \<Rightarrow> Inl e
              | Inr preference_match \<Rightarrow>
                  Inr (d\<lparr>compatibility_score :=
                            Some (f_add ar
                                    (f_add ar (f_mul ar safety_match (f_lit ar 0.4))
                                              (f_mul ar budget_match (f_lit ar 0.3)))
                                    (f_mul ar preference_match (f_lit ar 0.3))),
                          safety_improvement :=
                            Some (min 30 (f_mul ar (protection_score d) (f_lit ar 0.3))),
                          monthly_exercise :=
                            Some (f_add ar 60 (f_mul ar (protection_score d) (f_lit ar 0.5))),
                          deterrent_effect :=
                            Some (if protection_score d \<ge> 80 then ''High''
                                  else if protection_score d \<ge> 60 then ''Medium''
                                  else ''Low'')\<rparr>)))"

text \<open>The loop \<^verbatim>\<open>for dog in dogs\<close>, with its body as an argument.\<close>

fun score_loop_with :: "(dog \<Rightarrow> error + dog) \<Rightarrow> ref list \<Rightarrow> store \<Rightarrow> store \<times> error option" where
  "score_loop_with body [] s = (s, None)"
| "score_loop_with body (r # rs) s =
     (case body (s r) of
        Inl e \<Rightarrow> (s, Some e)
      | Inr d \<Rightarrow> score_loop_with body rs (s(r := d)))"

text \<open>\<^verbatim>\<open>_get_personalized_recommendations\<close>, lines 801 to 828.\<close>

definition get_personalized_recommendations_with ::
  "arith \<Rightarrow> neighborhood \<Rightarrow> string \<Rightarrow> string \<Rightarrow> ref list \<Rightarrow> store \<Rightarrow>
   store \<times> (error + ref list)" where
  "get_personalized_recommendations_with ar neighborhood_data size_pref protection_pref
       catalog s =
     (let dogs = catalog;
          dogs = (if size_pref \<noteq> ''Any''
                  then filter (\<lambda>r. dog_size (s r) = size_pref) dogs else dogs)
      in case score_loop_with (score_dog_with ar neighborhood_data protection_pref) dogs s of
           (s', Some e) \<Rightarrow> (s', Inl e)
         | (s', None) \<Rightarrow>
             (if list_all (\<lambda>r. compatibility_score (s' r) \<noteq> None) dogs
              then (s', Inr (take 5
                      (py_sort_reverse (\<lambda>r. the (compatibility_score (s' r))) dogs)))
              else (s', Inl KeyError)))"

section \<open>The clamp of the specification\<close>


section \<open>Example inputs\<close>

text \<open>A row of the animal table and a neighborhood profile, used to evaluate the model.\<close>

abbreviation example_row :: dog_row where
  "example_row \<equiv>
     \<lparr>r_name = PStr ''Rex'', r_primary_breed = ''German Shepherd Mix'', r_size = ''Large'',
      r_age = ''Adult'', r_special_needs = Some (PBool False),
      r_good_with_children = Some (PBool True), r_house_trained = Some (PBool True),
      r_shots_current = Some (PBool True), r_spayed_neutered = Some (PBool True),
      r_organization_id = ''CA1'', r_description = ''Friendly'',
      r_url = ''https://petfinder.com'', r_photo_medium = []\<rparr>"

abbreviation example_neighborhood :: neighborhood where
  "example_neighborhood \<equiv>
     \<lparr>safety_score = 100, walkability_score = 50, avg_rent = 2000, crime_count = 0,
      protection_need = ''Low'', budget_limit = 100, walk_index = 10\<rparr>"

abbreviation example_dog :: dog where
  "example_dog \<equiv>
     \<lparr>name = ''Rex'', breed = ''German Shepherd Mix'', dog_size = ''Large'', age = ''Adult'',
      protection_score = 100, family_score = 100, training_score = 100, monthly_cost = 125,
      good_with_children = True, house_trained = True, shelter = ''Local SF Shelter'',
      shelter_phone = ''(415) 555-0000'', description = ''Friendly'',
      adoption_url = ''https://petfinder.com'', photo_url = [],
      compatibility_score = None, safety_improvement = None, monthly_exercise = None,
      deterrent_effect = None\<rparr>"

text \<open>
  A catalog of eight dogs with values the builder produces: seven Large dogs, two of them
  (references 2 and 4) alike in every field that scoring reads, and one Small dog.
\<close>

abbreviation example_catalog :: "dog list" where
  "example_catalog \<equiv>
     [example_dog\<lparr>name := ''Ace'', age := ''Baby'', breed := ''Labrador Retriever'',
                  protection_score := 70\<rparr>,
      example_dog,
      example_dog\<lparr>name := ''Bo'', breed := ''Labrador Retriever'', protection_score := 80\<rparr>,
      example_dog\<lparr>name := ''Bella'', breed := ''Chihuahua'', dog_size := ''Small'',
                  protection_score := 55, monthly_cost := 70\<rparr>,
      example_dog\<lparr>name := ''Cy'', breed := ''Labrador Retriever'', protection_score := 80\<rparr>,
      example_dog\<lparr>name := ''Dot'', age := ''Young'', breed := ''Labrador Retriever'',
                  protection_score := 75\<rparr>,
      example_dog\<lparr>name := ''Eve'', age := ''Baby'', protection_score := 95\<rparr>,
      example_dog\<lparr>name := ''Fay'', age := ''Baby'', breed := ''Labrador Retriever'',
                  protection_score := 70, training_score := 90, monthly_cost := 175\<rparr>]"

section \<open>Rounding and the neighborhood metrics\<close>

lemma round_half_even_of_int: "round_half_even (of_int i) = i"
  by (simp add: round_half_even_def)

lemma py_round_exact: "x * 10 ^ n = of_int i \<Longrightarrow> py_round x n = x"
  by (simp add: py_round_def round_half_even_of_int field_simps)

lemma safety_score_round: "py_round (safety_score_of k) 1 = safety_score_of k"
proof (rule py_round_exact)
  show "safety_score_of k * 10 ^ 1 = of_int (max 0 (1000 - 5 * int k))"
    by (simp add: safety_score_of_def max_def)
qed

section \<open>The three matches\<close>

lemma pref_scores_cases:
  "pref_scores pp = Some (lo, hi) \<Longrightarrow>
     (lo, hi) \<in> {(0, 40), (40, 70), (70, 85), (85, 100)}"
  by (auto simp: pref_scores_def split: if_splits)

lemma safety_match_range:
  assumes "0 \<le> protection_score d" "protection_score d \<le> 100"
  shows "0 \<le> calculate_safety_match nd d \<and> calculate_safety_match nd d \<le> 100"
  using assms by (auto simp: calculate_safety_match_def Let_def min_def abs_if)

lemma budget_match_range:
  assumes "calculate_budget_match nd d = Inr bm" "0 < budget_limit nd"
  shows "0 \<le> bm \<and> bm \<le> 100"
proof -
  let ?b = "budget_limit nd" and ?c = "monthly_cost d"
  consider "?c \<le> ?b" | "\<not> ?c \<le> ?b" "?c \<le> ?b * 1.2" | "\<not> ?c \<le> ?b" "\<not> ?c \<le> ?b * 1.2"
    by blast
  then show ?thesis
  proof cases
    case 1 with assms show ?thesis by (simp add: calculate_budget_match_def Let_def)
  next
    case 2 with assms show ?thesis by (simp add: calculate_budget_match_def Let_def)
  next
    case 3
    define q where "q = (?c - ?b) / ?b"
    have bm: "bm = max 0 (100 - q * 100)"
      using 3 assms unfolding q_def by (simp add: calculate_budget_match_def Let_def)
    have "0 \<le> q"
      using 3 assms(2) unfolding q_def by simp
    then show ?thesis unfolding bm by simp
  qed
qed

lemma budget_match_total:
  "budget_limit nd \<noteq> 0 \<Longrightarrow> \<exists>bm. calculate_budget_match nd d = Inr bm"
  by (simp add: calculate_budget_match_def Let_def)

lemma preference_match_range:
  assumes "calculate_preference_match pp d = Inr pm"
  shows "0 \<le> pm \<and> pm \<le> 100"
  using assms
  by (auto simp: calculate_preference_match_def Let_def split: option.splits prod.splits if_splits)

lemma preference_match_total:
  "pp \<in> dom pref_scores \<Longrightarrow> \<exists>pm. calculate_preference_match pp d = Inr pm"
  by (auto simp: calculate_preference_match_def Let_def split: option.splits prod.splits)

lemma score_dog_Inr:
  assumes "score_dog nd pp d = Inr d'"
  shows "\<exists>bm pm.
    calculate_budget_match nd d = Inr bm \<and>
    calculate_preference_match pp d = Inr pm \<and>
    d' = d\<lparr>compatibility_score :=
              Some (calculate_safety_match nd d * 0.4 + bm * 0.3 + pm * 0.3),
            safety_improvement := Some (min 30 (protection_score d * 0.3)),
            monthly_exercise := Some (60 + (protection_score d * 0.5)),
            deterrent_effect :=
              Some (if protection_score d \<ge> 80 then ''High''
                    else if protection_score d \<ge> 60 then ''Medium'' else ''Low'')\<rparr>"
proof (cases "calculate_budget_match nd d")
  case (Inl e)
  with assms show ?thesis by (simp add: score_dog_def)
next
  case bm: (Inr bm)
  show ?thesis
  proof (cases "calculate_preference_match pp d")
    case (Inl e)
    with assms bm show ?thesis by (simp add: score_dog_def)
  next
    case (Inr pm)
    with assms bm show ?thesis by (simp add: score_dog_def)
  qed
qed

lemma safety_match_cong:
  "protection_score d' = protection_score d \<Longrightarrow>
   calculate_safety_match nd d' = calculate_safety_match nd d"
  by (simp add: calculate_safety_match_def)

lemma budget_match_cong:
  "monthly_cost d' = monthly_cost d \<Longrightarrow>
   calculate_budget_match nd d' = calculate_budget_match nd d"
  by (simp add: calculate_budget_match_def)

lemma preference_match_cong:
  "protection_score d' = protection_score d \<Longrightarrow>
   calculate_preference_match pp d' = calculate_preference_match pp d"
  by (simp add: calculate_preference_match_def cong: option.case_cong)

lemma score_dog_static:
  assumes "score_dog nd pp d = Inr d'"
  shows "dog_size d' = dog_size d" "protection_score d' = protection_score d"
    "monthly_cost d' = monthly_cost d"
  using score_dog_Inr [OF assms] by (elim exE conjE, simp)+

lemma score_dog_idem:
  assumes "score_dog nd pp d = Inr d'"
  shows "score_dog nd pp d' = Inr d'"
proof -
  from score_dog_Inr [OF assms] obtain bm pm where
    bm: "calculate_budget_match nd d = Inr bm" and
    pm: "calculate_preference_match pp d = Inr pm" and
    d': "d' = d\<lparr>compatibility_score :=
              Some (calculate_safety_match nd d * 0.4 + bm * 0.3 + pm * 0.3),
            safety_improvement := Some (min 30 (protection_score d * 0.3)),
            monthly_exercise := Some (60 + (protection_score d * 0.5)),
            deterrent_effect :=
              Some (if protection_score d \<ge> 80 then ''High''
                    else if protection_score d \<ge> 60 then ''Medium'' else ''Low'')\<rparr>"
    by (elim exE conjE) (rule that)
  have p: "protection_score d' = protection_score d" and c: "monthly_cost d' = monthly_cost d"
    using d' by simp_all
  have sm': "calculate_safety_match nd d' = calculate_safety_match nd d"
    by (rule safety_match_cong [OF p])
  have bm': "calculate_budget_match nd d' = Inr bm"
    using budget_match_cong [OF c] bm by simp
  have pm': "calculate_preference_match pp d' = Inr pm"
    using preference_match_cong [OF p] pm by simp
  have "score_dog nd pp d' =
          Inr (d'\<lparr>compatibility_score :=
              Some (calculate_safety_match nd d * 0.4 + bm * 0.3 + pm * 0.3),
            safety_improvement := Some (min 30 (protection_score d * 0.3)),
            monthly_exercise := Some (60 + (protection_score d * 0.5)),
            deterrent_effect :=
              Some (if protection_score d \<ge> 80 then ''High''
                    else if protection_score d \<ge> 60 then ''Medium'' else ''Low'')\<rparr>)"
    unfolding score_dog_def Let_def by (simp add: sm' bm' pm' p)
  also have "\<dots> = Inr d'"
    by (simp add: d')
  finally show ?thesis .
qed

lemma score_dog_total:
  assumes "budget_limit nd \<noteq> 0" "pp \<in> dom pref_scores"
  shows "\<exists>d'. score_dog nd pp d = Inr d'"
proof -
  obtain bm where "calculate_budget_match nd d = Inr bm"
    using budget_match_total [OF assms(1)] by blast
  moreover obtain pm where "calculate_preference_match pp d = Inr pm"
    using preference_match_total [OF assms(2)] by blast
  ultimately show ?thesis by (simp add: score_dog_def Let_def)
qed

section \<open>The scoring loop and the sort\<close>

lemma score_loop_fixed:
  assumes "score_loop nd pp rs s = (s1, res)"
    and "score_dog nd pp (s a) = Inr (s a)"
  shows "score_dog nd pp (s1 a) = Inr (s1 a)"
  using assms
proof (induction rs arbitrary: s)
  case Nil
  then show ?case by simp
next
  case (Cons x rs)
  show ?case
  proof (cases "score_dog nd pp (s x)")
    case (Inl e)
    with Cons.prems show ?thesis by simp
  next
    case (Inr d)
    with Cons.prems have loop: "score_loop nd pp rs (s(x := d)) = (s1, res)" by simp
    have "score_dog nd pp ((s(x := d)) a) = Inr ((s(x := d)) a)"
      using Cons.prems(2) score_dog_idem [OF Inr] by simp
    with loop show ?thesis by (rule Cons.IH)
  qed
qed

lemma score_loop_again:
  assumes "score_loop nd pp rs s = (s1, res)"
  shows "score_loop nd pp rs s1 = (s1, res)"
  using assms
proof (induction rs arbitrary: s)
  case Nil
  then show ?case by simp
next
  case (Cons x rs)
  show ?case
  proof (cases "score_dog nd pp (s x)")
    case (Inl e)
    with Cons.prems show ?thesis by simp
  next
    case (Inr d)
    with Cons.prems have loop: "score_loop nd pp rs (s(x := d)) = (s1, res)" by simp
    have "score_dog nd pp ((s(x := d)) x) = Inr ((s(x := d)) x)"
      using score_dog_idem [OF Inr] by simp
    with loop have fx: "score_dog nd pp (s1 x) = Inr (s1 x)" by (rule score_loop_fixed)
    have "score_loop nd pp rs s1 = (s1, res)" using loop by (rule Cons.IH)
    with fx show ?thesis by simp
  qed
qed

lemma score_loop_static:
  assumes "score_loop nd pp rs s = (s1, res)"
  shows "dog_size (s1 a) = dog_size (s a) \<and> protection_score (s1 a) = protection_score (s a)
    \<and> monthly_cost (s1 a) = monthly_cost (s a)"
  using assms
proof (induction rs arbitrary: s)
  case Nil
  then show ?case by simp
next
  case (Cons x rs)
  show ?case
  proof (cases "score_dog nd pp (s x)")
    case (Inl e)
    with Cons.prems show ?thesis by simp
  next
    case (Inr d)
    with Cons.prems have loop: "score_loop nd pp rs (s(x := d)) = (s1, res)" by simp
    from Cons.IH [OF loop] score_dog_static [OF Inr] show ?thesis by simp
  qed
qed

lemma score_loop_processed:
  assumes "score_loop nd pp rs s = (s1, None)" and "a \<in> set rs"
  shows "score_dog nd pp (s1 a) = Inr (s1 a)"
  using assms
proof (induction rs arbitrary: s)
  case Nil
  then show ?case by simp
next
  case (Cons x rs)
  show ?case
  proof (cases "score_dog nd pp (s x)")
    case (Inl e)
    with Cons.prems show ?thesis by simp
  next
    case (Inr d)
    with Cons.prems have loop: "score_loop nd pp rs (s(x := d)) = (s1, None)" by simp
    show ?thesis
    proof (cases "a \<in> set rs")
      case True
      with loop show ?thesis by (rule Cons.IH)
    next
      case False
      with Cons.prems(2) have "a = x" by simp
      moreover have "score_dog nd pp ((s(x := d)) x) = Inr ((s(x := d)) x)"
        using score_dog_idem [OF Inr] by simp
      ultimately show ?thesis using score_loop_fixed [OF loop] by simp
    qed
  qed
qed

lemma score_loop_frame:
  assumes "score_loop nd pp rs s = (s1, res)" and "a \<notin> set rs"
  shows "s1 a = s a"
  using assms
proof (induction rs arbitrary: s)
  case Nil
  then show ?case by simp
next
  case (Cons x rs)
  show ?case
  proof (cases "score_dog nd pp (s x)")
    case (Inl e)
    with Cons.prems show ?thesis by simp
  next
    case (Inr d)
    with Cons.prems have loop: "score_loop nd pp rs (s(x := d)) = (s1, res)" by simp
    from Cons.prems(2) have "a \<notin> set rs" "a \<noteq> x" by simp_all
    with Cons.IH [OF loop] show ?thesis by simp
  qed
qed

lemma score_loop_total:
  assumes "budget_limit nd \<noteq> 0" and "pp \<in> dom pref_scores"
  shows "snd (score_loop nd pp rs s) = None"
proof (induction rs arbitrary: s)
  case Nil
  show ?case by simp
next
  case (Cons x rs)
  obtain d where "score_dog nd pp (s x) = Inr d"
    using score_dog_total [OF assms] by blast
  then show ?case using Cons.IH by simp
qed

lemma py_sort_reverse_mset: "mset (py_sort_reverse key xs) = mset xs"
  by (simp add: py_sort_reverse_def)

lemma py_sort_reverse_descending: "sorted (rev (map key (py_sort_reverse key xs)))"
  by (simp add: py_sort_reverse_def rev_map)

lemma py_sort_reverse_stable:
  "filter (\<lambda>x. key x = k) (py_sort_reverse key xs) = filter (\<lambda>x. key x = k) xs"
proof -
  have "filter (\<lambda>x. key x = k) (py_sort_reverse key xs)
        = rev (filter (\<lambda>x. key x = k) (sort_key key (rev xs)))"
    by (simp add: py_sort_reverse_def rev_filter)
  also have "\<dots> = rev (filter (\<lambda>x. key x = k) (rev xs))"
    by (simp only: sort_key_stable)
  also have "\<dots> = filter (\<lambda>x. key x = k) xs"
    by (simp add: rev_filter)
  finally show ?thesis .
qed

lemma score_dog_fields:
  assumes "score_dog nd pp d = Inr d'"
  shows "monthly_exercise d' = Some (60 + protection_score d * 0.5)"
    and "safety_improvement d' = Some (min 30 (protection_score d * 0.3))"
    and "\<exists>e. deterrent_effect d' = Some e"
    and "\<exists>c. compatibility_score d' = Some c"
  using score_dog_Inr [OF assms] by (elim exE conjE, simp)+

lemma retained_filter:
  "(if sp \<noteq> ''Any'' then filter (\<lambda>r. dog_size (s r) = sp) cat else cat)
     = filter (\<lambda>r. sp = ''Any'' \<or> dog_size (s r) = sp) cat"
  by (cases "sp = ''Any''") simp_all

lemma recommendations_unfold:
  assumes "score_loop nd pp (filter (\<lambda>r. sp = ''Any'' \<or> dog_size (s r) = sp) cat) s = (s', res)"
  shows "get_personalized_recommendations nd sp pp cat s =
     (case res of
        Some e \<Rightarrow> (s', Inl e)
      | None \<Rightarrow>
          (if list_all (\<lambda>r. compatibility_score (s' r) \<noteq> None)
                (filter (\<lambda>r. sp = ''Any'' \<or> dog_size (s r) = sp) cat)
           then (s', Inr (take 5 (py_sort_reverse (\<lambda>r. the (compatibility_score (s' r)))
                                   (filter (\<lambda>r. sp = ''Any'' \<or> dog_size (s r) = sp) cat))))
           else (s', Inl KeyError)))"
  unfolding get_personalized_recommendations_def Let_def retained_filter assms
  by (simp split: option.splits)

lemma recommendations_store:
  assumes "score_loop nd pp (filter (\<lambda>r. sp = ''Any'' \<or> dog_size (s r) = sp) cat) s = (s', res)"
  shows "fst (get_personalized_recommendations nd sp pp cat s) = s'"
  unfolding recommendations_unfold [OF assms] by (simp split: option.splits)

lemma recommendations_again:
  assumes "get_personalized_recommendations nd sp pp cat s = (s1, out)"
  shows "get_personalized_recommendations nd sp pp cat s1 = (s1, out)"
proof -
  let ?dogs = "filter (\<lambda>r. sp = ''Any'' \<or> dog_size (s r) = sp) cat"
  obtain s' res where loop: "score_loop nd pp ?dogs s = (s', res)"
    by (cases "score_loop nd pp ?dogs s") blast
  have s': "s' = s1"
    using recommendations_store [OF loop] assms by simp
  have same: "filter (\<lambda>r. sp = ''Any'' \<or> dog_size (s1 r) = sp) cat = ?dogs"
    using score_loop_static [OF loop] by (simp add: s')
  have "score_loop nd pp ?dogs s1 = (s1, res)"
    using score_loop_again [OF loop] by (simp add: s')
  then have again: "score_loop nd pp (filter (\<lambda>r. sp = ''Any'' \<or> dog_size (s1 r) = sp) cat) s1
      = (s1, res)"
    by (simp only: same)
  show ?thesis
    using assms unfolding recommendations_unfold [OF again] recommendations_unfold [OF loop]
    by (simp only: same s')
qed

lemma recommendations_subset:
  assumes "get_personalized_recommendations nd sp pp cat s = (s1, Inr recs)"
  shows "set recs \<subseteq> set cat"
    and "\<forall>r\<in>set recs. score_dog nd pp (s1 r) = Inr (s1 r)"
    and "\<forall>r. protection_score (s1 r) = protection_score (s r)"
proof -
  let ?dogs = "filter (\<lambda>r. sp = ''Any'' \<or> dog_size (s r) = sp) cat"
  obtain s' res where loop: "score_loop nd pp ?dogs s = (s', res)"
    by (cases "score_loop nd pp ?dogs s") blast
  have s': "s' = s1"
    using recommendations_store [OF loop] assms by simp
  have res: "res = None" and
    recs: "recs = take 5 (py_sort_reverse (\<lambda>r. the (compatibility_score (s' r))) ?dogs)"
    using assms unfolding recommendations_unfold [OF loop]
    by (auto split: option.splits if_splits)
  have "set recs \<subseteq> set (py_sort_reverse (\<lambda>r. the (compatibility_score (s' r))) ?dogs)"
    unfolding recs by (rule set_take_subset)
  also have "\<dots> = set ?dogs"
    by (rule mset_eq_setD) (rule py_sort_reverse_mset)
  finally have sub: "set recs \<subseteq> set ?dogs" .
  then show "set recs \<subseteq> set cat" by auto
  show "\<forall>r\<in>set recs. score_dog nd pp (s1 r) = Inr (s1 r)"
    using score_loop_processed [OF loop [unfolded res]] sub unfolding s' by blast
  show "\<forall>r. protection_score (s1 r) = protection_score (s r)"
    using score_loop_static [OF loop] unfolding s' by simp
qed

lemma recommendations_static:
  assumes "get_personalized_recommendations nd sp pp cat s = (s1, out)"
  shows "protection_score (s1 r) = protection_score (s r)"
proof -
  let ?dogs = "filter (\<lambda>r. sp = ''Any'' \<or> dog_size (s r) = sp) cat"
  obtain s' res where loop: "score_loop nd pp ?dogs s = (s', res)"
    by (cases "score_loop nd pp ?dogs s") blast
  have "s' = s1"
    using recommendations_store [OF loop] assms by simp
  with score_loop_static [OF loop, of r] show ?thesis by simp
qed

section \<open>The scoring loop over machine arithmetic\<close>

text \<open>With exact arithmetic these are the definitions of the first sections.\<close>

lemma exact_ops:
  "f_lit exact_arith x = x"
  "f_add exact_arith x y = x + y"
  "f_sub exact_arith x y = x - y"
  "f_mul exact_arith x y = x * y"
  "f_div exact_arith x y = x / y"
  "f_mean exact_arith xs = mean xs"
  "f_round exact_arith x n = py_round x n"
  by (simp_all add: exact_arith_def)

lemma exact_matches:
  "calculate_safety_match_with exact_arith nd d = calculate_safety_match nd d"
  "calculate_budget_match_with exact_arith nd d = calculate_budget_match nd d"
  "calculate_preference_match_with exact_arith pp d = calculate_preference_match pp d"
  by (simp_all add: calculate_safety_match_with_def calculate_safety_match_def
      calculate_budget_match_with_def calculate_budget_match_def
      calculate_preference_match_with_def calculate_preference_match_def exact_ops Let_def
      split: option.splits)

lemma exact_score_dog: "score_dog_with exact_arith nd pp d = score_dog nd pp d"
  unfolding score_dog_with_def score_dog_def exact_matches
  by (simp add: exact_ops split: sum.splits)

lemma exact_score_loop:
  "score_loop_with (score_dog_with exact_arith nd pp) rs s = score_loop nd pp rs s"
  by (induction rs arbitrary: s) (simp_all add: exact_score_dog split: sum.splits)

lemma exact_recommendations:
  "get_personalized_recommendations_with exact_arith nd sp pp cat s
     = get_personalized_recommendations nd sp pp cat s"
  by (simp add: get_personalized_recommendations_with_def
      get_personalized_recommendations_def exact_score_loop)

lemma exact_neighborhood:
  "process_neighborhood_with exact_arith rental_df crime_df walkability_df nbhd
     = process_neighborhood rental_df crime_df walkability_df nbhd"
  by (simp add: process_neighborhood_with_def process_neighborhood_def walk_score_with_def
      walkability_score_with_def walkability_score_of_def walk_product_def
      safety_score_with_def safety_score_of_def budget_limit_with_def budget_limit_of_def
      exact_ops Let_def)

lemma score_dog_with_Inr:
  assumes "score_dog_with ar nd pp d = Inr d'"
  shows "\<exists>bm pm.
    calculate_budget_match_with ar nd d = Inr bm \<and>
    calculate_preference_match_with ar pp d = Inr pm \<and>
    d' = d\<lparr>compatibility_score :=
              Some (f_add ar
                      (f_add ar (f_mul ar (calculate_safety_match_with ar nd d) (f_lit ar 0.4))
                                (f_mul ar bm (f_lit ar 0.3)))
                      (f_mul ar pm (f_lit ar 0.3))),
            safety_improvement := Some (min 30 (f_mul ar (protection_score d) (f_lit ar 0.3))),
            monthly_exercise := Some (f_add ar 60 (f_mul ar (protection_score d) (f_lit ar 0.5))),
            deterrent_effect :=
              Some (if protection_score d \<ge> 80 then ''High''
                    else if protection_score d \<ge> 60 then ''Medium'' else ''Low'')\<rparr>"
proof (cases "calculate_budget_match_with ar nd d")
  case (Inl e)
  with assms show ?thesis by (simp add: score_dog_with_def)
next
  case bm: (Inr bm)
  show ?thesis
  proof (cases "calculate_preference_match_with ar pp d")
    case (Inl e)
    with assms bm show ?thesis by (simp add: score_dog_with_def)
  next
    case (Inr pm)
    with assms bm show ?thesis by (simp add: score_dog_with_def)
  qed
qed

lemma score_dog_with_cong:
  assumes "protection_score e = protection_score d" and "monthly_cost e = monthly_cost d"
  shows "calculate_safety_match_with ar nd e = calculate_safety_match_with ar nd d"
    and "calculate_budget_match_with ar nd e = calculate_budget_match_with ar nd d"
    and "calculate_preference_match_with ar pp e = calculate_preference_match_with ar pp d"
  using assms
  by (simp_all add: calculate_safety_match_with_def calculate_budget_match_with_def
      calculate_preference_match_with_def cong: option.case_cong)

lemma score_dog_with_static:
  assumes "score_dog_with ar nd pp d = Inr d'"
  shows "dog_size d' = dog_size d" "protection_score d' = protection_score d"
    "monthly_cost d' = monthly_cost d" "\<exists>c. compatibility_score d' = Some c"
  using score_dog_with_Inr [OF assms] by (elim exE conjE, simp)+

lemma score_dog_with_same:
  assumes d: "score_dog_with ar nd pp d = Inr d'"
    and p: "protection_score e = protection_score d" and c: "monthly_cost e = monthly_cost d"
  shows "score_dog_with ar nd pp e =
     Inr (e\<lparr>compatibility_score := compatibility_score d',
            safety_improvement := safety_improvement d',
            monthly_exercise := monthly_exercise d',
            deterrent_effect := deterrent_effect d'\<rparr>)"
proof -
  from score_dog_with_Inr [OF d] obtain bm pm where
    bm: "calculate_budget_match_with ar nd d = Inr bm" and
    pm: "calculate_preference_match_with ar pp d = Inr pm" and
    d': "d' = d\<lparr>compatibility_score :=
              Some (f_add ar
                      (f_add ar (f_mul ar (calculate_safety_match_with ar nd d) (f_lit ar 0.4))
                                (f_mul ar bm (f_lit ar 0.3)))
                      (f_mul ar pm (f_lit ar 0.3))),
            safety_improvement := Some (min 30 (f_mul ar (protection_score d) (f_lit ar 0.3))),
            monthly_exercise := Some (f_add ar 60 (f_mul ar (protection_score d) (f_lit ar 0.5))),
            deterrent_effect :=
              Some (if protection_score d \<ge> 80 then ''High''
                    else if protection_score d \<ge> 60 then ''Medium'' else ''Low'')\<rparr>"
    by (elim exE conjE) (rule that)
  have sm': "calculate_safety_match_with ar nd e = calculate_safety_match_with ar nd d"
    by (rule score_dog_with_cong(1) [OF p c])
  have bm': "calculate_budget_match_with ar nd e = Inr bm"
    using score_dog_with_cong(2) [OF p c, of ar nd] bm by simp
  have pm': "calculate_preference_match_with ar pp e = Inr pm"
    using score_dog_with_cong(3) [OF p c, of ar pp] pm by simp
  show ?thesis
    unfolding score_dog_with_def Let_def by (simp add: sm' bm' pm' p d')
qed

lemma score_dog_with_idem:
  assumes "score_dog_with ar nd pp d = Inr d'"
  shows "score_dog_with ar nd pp d' = Inr d'"
proof -
  have "score_dog_with ar nd pp d' =
     Inr (d'\<lparr>compatibility_score := compatibility_score d',
            safety_improvement := safety_improvement d',
            monthly_exercise := monthly_exercise d',
            deterrent_effect := deterrent_effect d'\<rparr>)"
    using assms score_dog_with_static(2,3) [OF assms] by (rule score_dog_with_same)
  then show ?thesis by simp
qed

lemma score_dog_with_total:
  assumes "budget_limit nd \<noteq> 0" "pp \<in> dom pref_scores"
  shows "\<exists>d'. score_dog_with ar nd pp d = Inr d'"
proof -
  have "\<exists>bm. calculate_budget_match_with ar nd d = Inr bm"
    using assms(1) by (simp add: calculate_budget_match_with_def Let_def)
  then obtain bm where "calculate_budget_match_with ar nd d = Inr bm" by blast
  moreover have "\<exists>pm. calculate_preference_match_with ar pp d = Inr pm"
    using assms(2)
    by (auto simp: calculate_preference_match_with_def Let_def split: option.splits prod.splits)
  then obtain pm where "calculate_preference_match_with ar pp d = Inr pm" by blast
  ultimately show ?thesis by (simp add: score_dog_with_def Let_def)
qed

lemma score_loop_with_fixed:
  assumes idem: "\<And>d d'. body d = Inr d' \<Longrightarrow> body d' = Inr d'"
    and "score_loop_with body rs s = (s1, res)"
    and "body (s a) = Inr (s a)"
  shows "body (s1 a) = Inr (s1 a)"
  using assms(2,3)
proof (induction rs arbitrary: s)
  case Nil
  then show ?case by simp
next
  case (Cons x rs)
  show ?case
  proof (cases "body (s x)")
    case (Inl e)
    with Cons.prems show ?thesis by simp
  next
    case (Inr d)
    with Cons.prems have loop: "score_loop_with body rs (s(x := d)) = (s1, res)" by simp
    have "body ((s(x := d)) a) = Inr ((s(x := d)) a)"
      using Cons.prems(2) idem [OF Inr] by simp
    with loop show ?thesis by (rule Cons.IH)
  qed
qed

lemma score_loop_with_processed:
  assumes idem: "\<And>d d'. body d = Inr d' \<Longrightarrow> body d' = Inr d'"
    and "score_loop_with body rs s = (s1, None)" and "a \<in> set rs"
  shows "body (s1 a) = Inr (s1 a)"
  using assms(2,3)
proof (induction rs arbitrary: s)
  case Nil
  then show ?case by simp
next
  case (Cons x rs)
  show ?case
  proof (cases "body (s x)")
    case (Inl e)
    with Cons.prems show ?thesis by simp
  next
    case (Inr d)
    with Cons.prems have loop: "score_loop_with body rs (s(x := d)) = (s1, None)" by simp
    show ?thesis
    proof (cases "a \<in> set rs")
      case True
      with loop show ?thesis by (rule Cons.IH)
    next
      case False
      with Cons.prems(2) have "a = x" by simp
      moreover have "body ((s(x := d)) x) = Inr ((s(x := d)) x)"
        using idem [OF Inr] by simp
      ultimately show ?thesis using score_loop_with_fixed [OF idem loop] by simp
    qed
  qed
qed

lemma score_loop_with_static:
  assumes keep: "\<And>d d'. body d = Inr d' \<Longrightarrow> obs d' = obs d"
    and "score_loop_with body rs s = (s1, res)"
  shows "obs (s1 a) = obs (s a)"
  using assms(2)
proof (induction rs arbitrary: s)
  case Nil
  then show ?case by simp
next
  case (Cons x rs)
  show ?case
  proof (cases "body (s x)")
    case (Inl e)
    with Cons.prems show ?thesis by simp
  next
    case (Inr d)
    with Cons.prems have loop: "score_loop_with body rs (s(x := d)) = (s1, res)" by simp
    from Cons.IH [OF loop] keep [OF Inr] show ?thesis by simp
  qed
qed

lemma score_loop_with_total:
  assumes "\<And>d. \<exists>d'. body d = Inr d'"
  shows "snd (score_loop_with body rs s) = None"
proof (induction rs arbitrary: s)
  case Nil
  show ?case by simp
next
  case (Cons x rs)
  obtain d where "body (s x) = Inr d"
    using assms by blast
  then show ?case using Cons.IH by simp
qed

lemma recommendations_with_unfold:
  assumes "score_loop_with (score_dog_with ar nd pp)
             (filter (\<lambda>r. sp = ''Any'' \<or> dog_size (s r) = sp) cat) s = (s', res)"
  shows "get_personalized_recommendations_with ar nd sp pp cat s =
     (case res of
        Some e \<Rightarrow> (s', Inl e)
      | None \<Rightarrow>
          (if list_all (\<lambda>r. compatibility_score (s' r) \<noteq> None)
                (filter (\<lambda>r. sp = ''Any'' \<or> dog_size (s r) = sp) cat)
           then (s', Inr (take 5 (py_sort_reverse (\<lambda>r. the (compatibility_score (s' r)))
                                   (filter (\<lambda>r. sp = ''Any'' \<or> dog_size (s r) = sp) cat))))
           else (s', Inl KeyError)))"
  unfolding get_personalized_recommendations_with_def Let_def retained_filter assms
  by (simp split: option.splits)

lemma recommendations_with_total:
  assumes "budget_limit nd \<noteq> 0" and "pp \<in> dom pref_scores"
  shows "\<exists>s'. score_loop_with (score_dog_with ar nd pp)
               (filter (\<lambda>r. sp = ''Any'' \<or> dog_size (s r) = sp) cat) s = (s', None) \<and>
     get_personalized_recommendations_with ar nd sp pp cat s =
       (s', Inr (take 5 (py_sort_reverse (\<lambda>r. the (compatibility_score (s' r)))
                            (filter (\<lambda>r. sp = ''Any'' \<or> dog_size (s r) = sp) cat))))"
proof -
  let ?dogs = "filter (\<lambda>r. sp = ''Any'' \<or> dog_size (s r) = sp) cat"
  let ?body = "score_dog_with ar nd pp"
  obtain s' res where loop: "score_loop_with ?body ?dogs s = (s', res)"
    by (cases "score_loop_with ?body ?dogs s") blast
  have res: "res = None"
    using score_loop_with_total [of ?body ?dogs s] score_dog_with_total [OF assms] loop
    by simp
  have "\<forall>r\<in>set ?dogs. compatibility_score (s' r) \<noteq> None"
  proof
    fix r assume "r \<in> set ?dogs"
    then have "?body (s' r) = Inr (s' r)"
      using score_loop_with_processed [of ?body ?dogs s s' r] score_dog_with_idem loop res
      by blast
    from score_dog_with_static(4) [OF this] show "compatibility_score (s' r) \<noteq> None" by auto
  qed
  then have "list_all (\<lambda>r. compatibility_score (s' r) \<noteq> None) ?dogs"
    by (simp add: list_all_iff)
  then show ?thesis
    using loop res unfolding recommendations_with_unfold [OF loop] by simp
qed

section \<open>The builder's protection score\<close>

lemma protection_score_range:
  "40 \<le> calculate_protection_score sz breed' age' \<and>
   calculate_protection_score sz breed' age' \<le> 100"
  by (simp add: calculate_protection_score_def Let_def)

lemma process_dog_protection_score:
  assumes "process_dog sf_orgs row = Inr d"
  shows "protection_score d =
     calculate_protection_score (r_size row) (take 30 (r_primary_breed row)) (r_age row)"
  using assms by (auto simp: process_dog_def Let_def split: pyval.splits)

lemma process_dog_data_protection_score:
  "d \<in> set (process_dog_data sf_orgs rows) \<Longrightarrow> 40 \<le> protection_score d"
proof (induction rows)
  case Nil
  then show ?case by simp
next
  case (Cons row rows)
  show ?case
  proof (cases "process_dog sf_orgs row")
    case (Inl e)
    with Cons show ?thesis by simp
  next
    case (Inr d0)
    show ?thesis
    proof (cases "d = d0")
      case True
      then show ?thesis
        using process_dog_protection_score [OF Inr] protection_score_range by simp
    next
      case False
      with Inr Cons show ?thesis by simp
    qed
  qed
qed

section \<open>The example inputs, evaluated\<close>

lemmas builder_defs =
  process_dog_def calculate_protection_score_def calculate_family_score_def
  calculate_training_score_def calculate_monthly_cost_def get_shelter_info_def
  parse_boolean_safe_def get_or_def base_costs_def protective_breeds_def lower_def
  lower_char_def py_round_def round_half_even_def Let_def

lemmas scoring_defs =
  score_dog_def calculate_safety_match_def calculate_budget_match_def
  calculate_preference_match_def pref_scores_def Let_def

lemma process_example_row: "process_dog [] example_row = Inr example_dog"
  by (simp add: builder_defs)

lemma process_example_rows: "process_dog_data [] [example_row] = [example_dog]"
  by (simp add: process_example_row)

lemma score_example_dog:
  "score_dog example_neighborhood ''Medium'' example_dog =
     Inr (example_dog\<lparr>compatibility_score := Some 67.3, safety_improvement := Some 30,
            monthly_exercise := Some 110, deterrent_effect := Some ''High''\<rparr>)"
  by (simp add: scoring_defs)

lemma recommend_example:
  "get_personalized_recommendations example_neighborhood ''Any'' ''Medium''
     (catalog_refs [example_dog]) (catalog_store [example_dog]) =
   ((catalog_store [example_dog])
      (0 := example_dog\<lparr>compatibility_score := Some 67.3, safety_improvement := Some 30,
              monthly_exercise := Some 110, deterrent_effect := Some ''High''\<rparr>),
    Inr [0])"
proof -
  have cat: "catalog_refs [example_dog] = [0]"
    by (simp add: catalog_refs_def)
  have s0: "catalog_store [example_dog] 0 = example_dog"
    by (simp add: catalog_store_def)
  have loop: "score_loop example_neighborhood ''Medium''
        (filter (\<lambda>r. ''Any'' = ''Any'' \<or> dog_size (catalog_store [example_dog] r) = ''Any'') [0])
        (catalog_store [example_dog]) =
      ((catalog_store [example_dog])
         (0 := example_dog\<lparr>compatibility_score := Some 67.3, safety_improvement := Some 30,
              monthly_exercise := Some 110, deterrent_effect := Some ''High''\<rparr>), None)"
    by (simp add: s0 score_example_dog)
  show ?thesis
    unfolding cat recommendations_unfold [OF loop]
    by (simp add: py_sort_reverse_def del: not_None_eq)
qed

lemma built_catalog_floor:
  "\<forall>r\<in>set (catalog_refs (process_dog_data sf_orgs rows)).
      40 \<le> protection_score (catalog_store (process_dog_data sf_orgs rows) r)"
proof
  fix r assume "r \<in> set (catalog_refs (process_dog_data sf_orgs rows))"
  then have "r < length (process_dog_data sf_orgs rows)" by (simp add: catalog_refs_def)
  then have "catalog_store (process_dog_data sf_orgs rows) r \<in> set (process_dog_data sf_orgs rows)"
    by (simp add: catalog_store_def)
  then show "40 \<le> protection_score (catalog_store (process_dog_data sf_orgs rows) r)"
    by (rule process_dog_data_protection_score)
qed


lemmas scoring_with_defs =
  score_dog_with_def calculate_safety_match_with_def calculate_budget_match_with_def
  calculate_preference_match_with_def pref_scores_def exact_arith_def Let_def

lemma rank_example_catalog:
  "snd (get_personalized_recommendations_with exact_arith example_neighborhood ''Large''
          ''Medium'' (catalog_refs example_catalog) (catalog_store example_catalog))
     = Inr [0, 5, 2, 4, 7]"
  "compatibility_score
         (fst (get_personalized_recommendations_with exact_arith example_neighborhood
                 ''Large'' ''Medium'' (catalog_refs example_catalog)
                 (catalog_store example_catalog)) 2)
       = compatibility_score
         (fst (get_personalized_recommendations_with exact_arith example_neighborhood
                 ''Large'' ''Medium'' (catalog_refs example_catalog)
                 (catalog_store example_catalog)) 4)"
  by (simp_all add: get_personalized_recommendations_with_def scoring_with_defs
      py_sort_reverse_def catalog_refs_def catalog_store_def upt_rec del: not_None_eq)

lemma retained_example_catalog:
  "filter (\<lambda>r. ''Large'' = ''Any'' \<or> dog_size (catalog_store example_catalog r) = ''Large'')
     (catalog_refs example_catalog) = [0, 1, 2, 4, 5, 6, 7]"
  by (simp add: catalog_refs_def catalog_store_def upt_rec)

section \<open>C1: the catalog entries after a request\<close>

text \<open>
  C1 states that the per-request fields are attached to copies only, so that every dog
  record of the shared catalog is, after \<^verbatim>\<open>_get_personalized_recommendations\<close> returns,
  what it was when the catalog was built. The source copies the list, not the
  dictionaries: \<^verbatim>\<open>self.real_data['dogs'].copy()\<close> yields a new list of the same references,
  and the scoring loop writes through them. For the catalog built from the single example
  row, the entry behind reference 0 has no \<^verbatim>\<open>compatibility_score\<close> before the request and
  the value 67.3 after it, so the entry has changed.
\<close>

theorem catalog_entry_mutated:
  "compatibility_score (catalog_store (process_dog_data [] [example_row]) 0) = None \<and>
   snd (get_personalized_recommendations example_neighborhood ''Any'' ''Medium''
          (catalog_refs (process_dog_data [] [example_row]))
          (catalog_store (process_dog_data [] [example_row]))) = Inr [0] \<and>
   compatibility_score
     (fst (get_personalized_recommendations example_neighborhood ''Any'' ''Medium''
             (catalog_refs (process_dog_data [] [example_row]))
             (catalog_store (process_dog_data [] [example_row]))) 0) = Some 67.3 \<and>
   fst (get_personalized_recommendations example_neighborhood ''Any'' ''Medium''
          (catalog_refs (process_dog_data [] [example_row]))
          (catalog_store (process_dog_data [] [example_row]))) 0
     \<noteq> catalog_store (process_dog_data [] [example_row]) 0"
  unfolding process_example_rows recommend_example
  by (simp add: catalog_store_def)

section \<open>C2: monthly cost and the special-needs flag\<close>

text \<open>
  C2 states that the monthly cost is the base cost of the size, times 1.4 exactly when the
  special-needs cell coerces to true under \<^verbatim>\<open>_parse_boolean_safe\<close>, so that a dog whose
  cell is missing (NaN) is not inflated. The source passes the raw cell to
  \<^verbatim>\<open>_calculate_monthly_cost\<close>, which tests it with \<^verbatim>\<open>if special_needs:\<close>; a NaN is true
  there. For a Small dog with a NaN cell the cost is 98, not 70, although the coercion of
  that cell is false and the family score of the same row counts the dog as not
  special-needs. The string \<^verbatim>\<open>'false'\<close> is inflated in the same way.
\<close>

theorem monthly_cost_inflated_on_missing_flag:
  "calculate_monthly_cost ''Small'' PNaN = 98 \<and>
   \<not> parse_boolean_safe PNaN \<and>
   map_sum id monthly_cost
     (process_dog [] (example_row\<lparr>r_size := ''Small'', r_special_needs := Some PNaN\<rparr>)) = Inr 98 \<and>
   map_sum id family_score
     (process_dog [] (example_row\<lparr>r_size := ''Small'', r_special_needs := Some PNaN\<rparr>)) = Inr 100 \<and>
   calculate_monthly_cost ''Small'' (PStr ''false'') = 98 \<and>
   \<not> parse_boolean_safe (PStr ''false'')"
  by (simp add: builder_defs)

section \<open>C3: the walkability score\<close>




section \<open>C4: the boolean coercion\<close>

text \<open>
  C4 states that \<^verbatim>\<open>_parse_boolean_safe\<close> is true exactly for the boolean true and for the
  strings that equal \<open>true\<close>, \<open>yes\<close>, \<open>1\<close> or \<open>y\<close> ignoring case, and false for every
  other input, an arbitrary nonzero number included. As stated this fails: the last line
  of the source is \<^verbatim>\<open>return bool(value)\<close>, which is true for the number 5.
\<close>

theorem parse_boolean_safe_nonzero_number:
  "parse_boolean_safe (PNum 5) = True"
  by (simp add: parse_boolean_safe_def)

text \<open>
  C4, amended: \<^verbatim>\<open>_parse_boolean_safe\<close> is true exactly for the boolean true, for the
  strings that equal \<open>true\<close>, \<open>yes\<close>, \<open>1\<close> or \<open>y\<close> ignoring case, and for the nonzero
  numbers; it is false for every other input: a missing value (\<^verbatim>\<open>None\<close>, NaN), the boolean
  false, any other string, and the number zero.
\<close>

theorem parse_boolean_safe_cases:
  "parse_boolean_safe v \<longleftrightarrow>
     v = PBool True
     \<or> (\<exists>s. v = PStr s \<and> lower s \<in> {''true'', ''yes'', ''1'', ''y''})
     \<or> (\<exists>x. v = PNum x \<and> x \<noteq> 0)"
  by (cases v) (auto simp: parse_boolean_safe_def)

text \<open>C4, amended, at concrete inputs of each kind.\<close>

theorem parse_boolean_safe_cases_witness:
  "parse_boolean_safe (PStr ''YES'') \<and> parse_boolean_safe (PBool True) \<and>
   \<not> parse_boolean_safe PNaN \<and> \<not> parse_boolean_safe PNone \<and>
   \<not> parse_boolean_safe (PStr ''no'') \<and> \<not> parse_boolean_safe (PNum 0) \<and>
   parse_boolean_safe (PNum 5)"
  using parse_boolean_safe_cases [of "PStr ''YES''"] parse_boolean_safe_cases [of "PBool True"]
    parse_boolean_safe_cases [of PNaN] parse_boolean_safe_cases [of PNone]
    parse_boolean_safe_cases [of "PStr ''no''"] parse_boolean_safe_cases [of "PNum 0"]
    parse_boolean_safe_cases [of "PNum 5"]
  by (simp add: lower_def lower_char_def)

section \<open>C5: the protection need\<close>

text \<open>
  C5: for every neighborhood, \<^verbatim>\<open>protection_need\<close> is the step function of the stored
  \<^verbatim>\<open>safety_score\<close> with strict boundaries: below 40 it is Very High, from 40 and below 60
  High, from 60 and below 80 Medium, from 80 on Low. A score of exactly 40 gives High,
  exactly 60 Medium, exactly 80 Low; and the need never rises as the score grows. (The
  need is computed from the score before it is rounded to one decimal; the score is a
  multiple of one half, so the rounding does not change it.)
\<close>

theorem protection_need_step:
  "protection_need (process_neighborhood rental_df crime_df walkability_df nbhd)
     = protection_need_of
         (safety_score (process_neighborhood rental_df crime_df walkability_df nbhd)) \<and>
   (s < 40 \<longrightarrow> protection_need_of s = ''Very High'') \<and>
   (40 \<le> s \<and> s < 60 \<longrightarrow> protection_need_of s = ''High'') \<and>
   (60 \<le> s \<and> s < 80 \<longrightarrow> protection_need_of s = ''Medium'') \<and>
   (80 \<le> s \<longrightarrow> protection_need_of s = ''Low'') \<and>
   protection_need_of 40 = ''High'' \<and>
   protection_need_of 60 = ''Medium'' \<and>
   protection_need_of 80 = ''Low'' \<and>
   (s \<le> t \<longrightarrow>
      (protection_need_of s = ''Low'' \<longrightarrow> protection_need_of t = ''Low'') \<and>
      (protection_need_of s = ''Medium'' \<longrightarrow> protection_need_of t \<in> {''Medium'', ''Low''}) \<and>
      (protection_need_of s = ''High'' \<longrightarrow>
         protection_need_of t \<in> {''High'', ''Medium'', ''Low''}))"
proof -
  have "protection_need (process_neighborhood rental_df crime_df walkability_df nbhd)
     = protection_need_of
         (safety_score (process_neighborhood rental_df crime_df walkability_df nbhd))"
    by (simp add: process_neighborhood_def Let_def safety_score_round del: One_nat_def)
  moreover have "(s < 40 \<longrightarrow> protection_need_of s = ''Very High'') \<and>
   (40 \<le> s \<and> s < 60 \<longrightarrow> protection_need_of s = ''High'') \<and>
   (60 \<le> s \<and> s < 80 \<longrightarrow> protection_need_of s = ''Medium'') \<and>
   (80 \<le> s \<longrightarrow> protection_need_of s = ''Low'')"
    by (simp add: protection_need_of_def)
  moreover have "protection_need_of 40 = ''High'' \<and> protection_need_of 60 = ''Medium'' \<and>
    protection_need_of 80 = ''Low''"
    by (simp add: protection_need_of_def)
  moreover have "s \<le> t \<longrightarrow>
      (protection_need_of s = ''Low'' \<longrightarrow> protection_need_of t = ''Low'') \<and>
      (protection_need_of s = ''Medium'' \<longrightarrow> protection_need_of t \<in> {''Medium'', ''Low''}) \<and>
      (protection_need_of s = ''High'' \<longrightarrow>
         protection_need_of t \<in> {''High'', ''Medium'', ''Low''})"
    by (simp add: protection_need_of_def)
  ultimately show ?thesis by blast
qed

text \<open>
  C5 at concrete inputs: a neighborhood with 120 crime rows has the safety score 40 and
  the need High; the scores 85 and 90 both give Low.
\<close>

theorem protection_need_step_witness:
  "safety_score (process_neighborhood [(Some ''Mission'', 3000)]
       (replicate 120 (Some ''Mission'')) [] ''Mission'') = 40 \<and>
   protection_need (process_neighborhood [(Some ''Mission'', 3000)]
       (replicate 120 (Some ''Mission'')) [] ''Mission'') = ''High'' \<and>
   (80::real) \<le> 85 \<and> (85::real) \<le> 90 \<and>
   protection_need_of 85 = ''Low'' \<and> protection_need_of 90 = ''Low''"
  using protection_need_step [of "[(Some ''Mission'', 3000)]" "replicate 120 (Some ''Mission'')"
      "[]" "''Mission''" 85 90]
  by (simp add: process_neighborhood_def Let_def safety_score_of_def py_round_def
      round_half_even_def rows_of_def mean_def protection_need_of_def)

section \<open>C6: the compatibility score\<close>

text \<open>
  C6: for every neighborhood profile with a budget limit of at least 50, every dog with a
  protection score in \<open>[0, 100]\<close> and a non-negative monthly cost, every protection need
  and every protection preference of the four offered, the three matches are computed
  without an error, and the compatibility score written to the dog is
  \<open>0.4 * safety_match + 0.3 * budget_match + 0.3 * preference_match\<close> and lies in
  \<open>[0, 100]\<close>.
\<close>

theorem compatibility_score_range:
  assumes "50 \<le> budget_limit nd"
    and "0 \<le> protection_score d" and "protection_score d \<le> 100"
    and "0 \<le> monthly_cost d"
    and "pp \<in> set [''Low'', ''Medium'', ''High'', ''Very High'']"
  shows "\<exists>bm pm d' c.
           calculate_budget_match nd d = Inr bm \<and>
           calculate_preference_match pp d = Inr pm \<and>
           score_dog nd pp d = Inr d' \<and>
           compatibility_score d' = Some c \<and>
           c = 0.4 * calculate_safety_match nd d + 0.3 * bm + 0.3 * pm \<and>
           0 \<le> c \<and> c \<le> 100"
proof -
  have pp: "pp \<in> dom pref_scores"
    using assms(5) by (auto simp: pref_scores_def)
  have b: "budget_limit nd \<noteq> 0" "0 < budget_limit nd"
    using assms(1) by simp_all
  obtain d' where d': "score_dog nd pp d = Inr d'"
    using score_dog_total [OF b(1) pp] by blast
  from score_dog_Inr [OF this] obtain bm pm where
    bm: "calculate_budget_match nd d = Inr bm" and
    pm: "calculate_preference_match pp d = Inr pm" and
    eq: "d' = d\<lparr>compatibility_score :=
              Some (calculate_safety_match nd d * 0.4 + bm * 0.3 + pm * 0.3),
            safety_improvement := Some (min 30 (protection_score d * 0.3)),
            monthly_exercise := Some (60 + (protection_score d * 0.5)),
            deterrent_effect :=
              Some (if protection_score d \<ge> 80 then ''High''
                    else if protection_score d \<ge> 60 then ''Medium'' else ''Low'')\<rparr>"
    by (elim exE conjE) (rule that)
  define sm where "sm = calculate_safety_match nd d"
  have sm: "0 \<le> sm" "sm \<le> 100"
    using safety_match_range [OF assms(2,3), of nd] by (simp_all add: sm_def)
  have bmr: "0 \<le> bm" "bm \<le> 100"
    using budget_match_range [OF bm b(2)] by simp_all
  have pmr: "0 \<le> pm" "pm \<le> 100"
    using preference_match_range [OF pm] by simp_all
  have c: "compatibility_score d' = Some (0.4 * sm + 0.3 * bm + 0.3 * pm)"
    by (simp add: eq sm_def)
  have "0 \<le> 0.4 * sm + 0.3 * bm + 0.3 * pm" "0.4 * sm + 0.3 * bm + 0.3 * pm \<le> 100"
    using sm bmr pmr by simp_all
  with bm pm d' c show ?thesis
    unfolding sm_def by blast
qed

text \<open>
  C6 at a concrete input: the example dog in the example neighborhood, with the
  preference Medium, gets the compatibility score 67.3.
\<close>

theorem compatibility_score_range_witness:
  "50 \<le> budget_limit example_neighborhood \<and>
   0 \<le> protection_score example_dog \<and> protection_score example_dog \<le> 100 \<and>
   0 \<le> monthly_cost example_dog \<and>
   ''Medium'' \<in> set [''Low'', ''Medium'', ''High'', ''Very High''] \<and>
   map_sum id compatibility_score (score_dog example_neighborhood ''Medium'' example_dog)
     = Inr (Some 67.3) \<and>
   (0::real) \<le> 67.3 \<and> (67.3::real) \<le> 100"
  using compatibility_score_range [of example_neighborhood example_dog "''Medium''"]
  by (simp add: score_example_dog)

section \<open>C7: filtering, sorting and truncating\<close>

text \<open>
  C7: for every arithmetic, every catalog, every size preference and every protection
  preference of the four offered, in a neighborhood whose budget limit is not zero, the
  ranker returns the first five entries of a list \<open>ranked\<close> that holds exactly the dogs
  retained by the size filter, a dog being retained if and only if the preference is
  \<open>Any\<close> or equals the dog's size string; each retained dog carries the compatibility
  score computed for it in this request; \<open>ranked\<close> is in descending order of that score;
  dogs with equal scores keep the order they have in the catalog; the result has five
  dogs, or as many as were retained when these are fewer, and is empty when none was
  retained. Nothing is assumed of the arithmetic, so that the statement covers the scores
  as doubles, whichever of them are equal.
\<close>

theorem ranker_filter_sort_truncate:
  assumes "budget_limit nd \<noteq> 0"
    and "pp \<in> set [''Low'', ''Medium'', ''High'', ''Very High'']"
  shows "\<exists>s' ranked.
     get_personalized_recommendations_with ar nd sp pp cat s = (s', Inr (take 5 ranked)) \<and>
     mset ranked = mset (filter (\<lambda>r. sp = ''Any'' \<or> dog_size (s r) = sp) cat) \<and>
     (\<forall>r\<in>set ranked. \<exists>d' c. score_dog_with ar nd pp (s r) = Inr d' \<and>
                         compatibility_score d' = Some c \<and>
                         compatibility_score (s' r) = Some c) \<and>
     sorted (rev (map (\<lambda>r. the (compatibility_score (s' r))) ranked)) \<and>
     (\<forall>k. filter (\<lambda>r. the (compatibility_score (s' r)) = k) ranked
          = filter (\<lambda>r. the (compatibility_score (s' r)) = k)
              (filter (\<lambda>r. sp = ''Any'' \<or> dog_size (s r) = sp) cat)) \<and>
     length (take 5 ranked)
       = min 5 (length (filter (\<lambda>r. sp = ''Any'' \<or> dog_size (s r) = sp) cat)) \<and>
     (filter (\<lambda>r. sp = ''Any'' \<or> dog_size (s r) = sp) cat = [] \<longrightarrow> take 5 ranked = [])"
proof -
  let ?dogs = "filter (\<lambda>r. sp = ''Any'' \<or> dog_size (s r) = sp) cat"
  let ?body = "score_dog_with ar nd pp"
  have pp: "pp \<in> dom pref_scores"
    using assms(2) by (auto simp: pref_scores_def)
  from recommendations_with_total [OF assms(1) pp, of ar sp s cat] obtain s' where
    loop: "score_loop_with ?body ?dogs s = (s', None)" and
    recs: "get_personalized_recommendations_with ar nd sp pp cat s =
       (s', Inr (take 5 (py_sort_reverse (\<lambda>r. the (compatibility_score (s' r))) ?dogs)))"
    by blast
  define key where "key = (\<lambda>r. the (compatibility_score (s' r)))"
  define ranked where "ranked = py_sort_reverse key ?dogs"
  have m: "mset ranked = mset ?dogs"
    by (simp add: ranked_def py_sort_reverse_mset)
  then have set_eq: "set ranked = set ?dogs" by (rule mset_eq_setD)
  have len: "length ranked = length ?dogs"
    using m by (rule mset_eq_length)
  have scores: "\<forall>r\<in>set ranked. \<exists>d' c. ?body (s r) = Inr d' \<and>
                         compatibility_score d' = Some c \<and>
                         compatibility_score (s' r) = Some c"
  proof
    fix r assume "r \<in> set ranked"
    then have r: "r \<in> set ?dogs" by (simp only: set_eq)
    have fx: "?body (s' r) = Inr (s' r)"
      using score_loop_with_processed [of ?body ?dogs s s' r] score_dog_with_idem loop r
      by blast
    obtain d' where d': "?body (s r) = Inr d'"
      using score_dog_with_total [OF assms(1) pp] by blast
    obtain c where c: "compatibility_score d' = Some c"
      using score_dog_with_static(4) [OF d'] by blast
    have p: "protection_score (s' r) = protection_score (s r)"
      using score_loop_with_static [of ?body protection_score ?dogs s s' None r]
        score_dog_with_static(2) loop by blast
    have mc: "monthly_cost (s' r) = monthly_cost (s r)"
      using score_loop_with_static [of ?body monthly_cost ?dogs s s' None r]
        score_dog_with_static(3) loop by blast
    have "?body (s' r) =
       Inr ((s' r)\<lparr>compatibility_score := compatibility_score d',
            safety_improvement := safety_improvement d',
            monthly_exercise := monthly_exercise d',
            deterrent_effect := deterrent_effect d'\<rparr>)"
      using d' p mc by (rule score_dog_with_same)
    with fx have "s' r = (s' r)\<lparr>compatibility_score := compatibility_score d',
            safety_improvement := safety_improvement d',
            monthly_exercise := monthly_exercise d',
            deterrent_effect := deterrent_effect d'\<rparr>"
      by simp
    then have "compatibility_score (s' r) =
       compatibility_score ((s' r)\<lparr>compatibility_score := compatibility_score d',
            safety_improvement := safety_improvement d',
            monthly_exercise := monthly_exercise d',
            deterrent_effect := deterrent_effect d'\<rparr>)"
      by (rule arg_cong)
    then have "compatibility_score (s' r) = compatibility_score d'" by simp
    with d' c show "\<exists>d' c. ?body (s r) = Inr d' \<and>
                         compatibility_score d' = Some c \<and>
                         compatibility_score (s' r) = Some c"
      by simp
  qed
  have desc: "sorted (rev (map key ranked))"
    unfolding ranked_def by (rule py_sort_reverse_descending)
  have stable: "\<forall>k. filter (\<lambda>r. key r = k) ranked = filter (\<lambda>r. key r = k) ?dogs"
    unfolding ranked_def by (simp add: py_sort_reverse_stable)
  have l5: "length (take 5 ranked) = min 5 (length ?dogs)"
    using len by simp
  have emp: "?dogs = [] \<longrightarrow> take 5 ranked = []"
    using len by auto
  have "get_personalized_recommendations_with ar nd sp pp cat s = (s', Inr (take 5 ranked))"
    using recs by (simp add: ranked_def key_def)
  with m scores desc stable l5 emp show ?thesis
    unfolding key_def by blast
qed

text \<open>
  C7 at a concrete input, in exact arithmetic: the example catalog with the size
  preference Large. The Small dog (reference 3) is filtered out and seven dogs are
  retained; the ranked list starts with the references 0, 5, 2, 4, 7, not in catalog
  order; the references 2 and 4 have the same score and keep their order; two retained
  dogs (references 6 and 1) are cut off. The scores of this input are far enough apart
  that doubles order them in the same way.
\<close>

theorem ranker_filter_sort_truncate_witness:
  "budget_limit example_neighborhood \<noteq> 0 \<and>
   ''Medium'' \<in> set [''Low'', ''Medium'', ''High'', ''Very High''] \<and>
   filter (\<lambda>r. ''Large'' = ''Any'' \<or> dog_size (catalog_store example_catalog r) = ''Large'')
     (catalog_refs example_catalog) = [0, 1, 2, 4, 5, 6, 7] \<and>
   snd (get_personalized_recommendations_with exact_arith example_neighborhood ''Large''
          ''Medium'' (catalog_refs example_catalog) (catalog_store example_catalog))
     = Inr [0, 5, 2, 4, 7] \<and>
   compatibility_score
     (fst (get_personalized_recommendations_with exact_arith example_neighborhood
             ''Large'' ''Medium'' (catalog_refs example_catalog)
             (catalog_store example_catalog)) 2)
     = compatibility_score
     (fst (get_personalized_recommendations_with exact_arith example_neighborhood
             ''Large'' ''Medium'' (catalog_refs example_catalog)
             (catalog_store example_catalog)) 4) \<and>
   (\<exists>s' ranked.
      get_personalized_recommendations_with exact_arith example_neighborhood ''Large''
        ''Medium'' (catalog_refs example_catalog) (catalog_store example_catalog)
        = (s', Inr (take 5 ranked)) \<and>
      length ranked = 7 \<and> length (take 5 ranked) = 5)"
proof -
  have h1: "budget_limit example_neighborhood \<noteq> 0" by simp
  have h2: "''Medium'' \<in> set [''Low'', ''Medium'', ''High'', ''Very High'']" by simp
  from ranker_filter_sort_truncate [OF h1 h2, of exact_arith "''Large''"
      "catalog_refs example_catalog" "catalog_store example_catalog"]
  obtain s' ranked where
    run: "get_personalized_recommendations_with exact_arith example_neighborhood ''Large''
        ''Medium'' (catalog_refs example_catalog) (catalog_store example_catalog)
        = (s', Inr (take 5 ranked))"
    and m: "mset ranked = mset (filter (\<lambda>r. ''Large'' = ''Any'' \<or>
         dog_size (catalog_store example_catalog r) = ''Large'') (catalog_refs example_catalog))"
    by blast
  have "length ranked = 7"
    using mset_eq_length [OF m] unfolding retained_example_catalog by simp
  then have "length ranked = 7 \<and> length (take 5 ranked) = 5" by simp
  with run have "\<exists>s' ranked.
      get_personalized_recommendations_with exact_arith example_neighborhood ''Large''
        ''Medium'' (catalog_refs example_catalog) (catalog_store example_catalog)
        = (s', Inr (take 5 ranked)) \<and>
      length ranked = 7 \<and> length (take 5 ranked) = 5"
    by blast
  with h1 h2 retained_example_catalog rank_example_catalog(1) rank_example_catalog(2)
  show ?thesis by - (intro conjI; assumption)
qed

section \<open>C8: unknown neighborhoods and empty results\<close>

text \<open>
  C8: for a neighborhood name that the catalog does not have, the entry point returns
  without an error, and returns the not-found outcome once the button has been clicked
  and the name is not empty. When no dog survives the size filter, the ranker returns the
  empty list and leaves the store as it is, the impact summarizer returns the empty
  record for the empty list, and the entry point hands both to the presentation layer,
  again without an error.
\<close>

theorem not_found_and_empty_result:
  "(neighborhoods nb = None \<longrightarrow>
      (\<exists>resp. update_recommendations neighborhoods cat n_clicks (Some nb) sp pp s
                = (s, Inr resp) \<and>
              (n_clicks \<noteq> 0 \<and> nb \<noteq> [] \<longrightarrow> resp = NotFound nb))) \<and>
   (filter (\<lambda>r. sp = ''Any'' \<or> dog_size (s r) = sp) cat = [] \<longrightarrow>
      get_personalized_recommendations nd sp pp cat s = (s, Inr []) \<and>
      calculate_impact_metrics nd [] = Inr None \<and>
      (n_clicks \<noteq> 0 \<and> nb \<noteq> [] \<and> neighborhoods nb = Some nd \<longrightarrow>
         update_recommendations neighborhoods cat n_clicks (Some nb) sp pp s
           = (s, Inr (ResultsLayout nb nd [] None))))"
proof -
  have a: "neighborhoods nb = None \<longrightarrow>
      (\<exists>resp. update_recommendations neighborhoods cat n_clicks (Some nb) sp pp s
                = (s, Inr resp) \<and>
              (n_clicks \<noteq> 0 \<and> nb \<noteq> [] \<longrightarrow> resp = NotFound nb))"
    by (simp add: update_recommendations_def)
  have imp: "calculate_impact_metrics nd [] = Inr None"
    by (simp add: calculate_impact_metrics_def)
  have b: "filter (\<lambda>r. sp = ''Any'' \<or> dog_size (s r) = sp) cat = [] \<longrightarrow>
      get_personalized_recommendations nd sp pp cat s = (s, Inr [])"
  proof
    assume e: "filter (\<lambda>r. sp = ''Any'' \<or> dog_size (s r) = sp) cat = []"
    have "score_loop nd pp (filter (\<lambda>r. sp = ''Any'' \<or> dog_size (s r) = sp) cat) s = (s, None)"
      by (simp add: e)
    from recommendations_unfold [OF this]
    show "get_personalized_recommendations nd sp pp cat s = (s, Inr [])"
      by (simp add: e py_sort_reverse_def)
  qed
  have c: "filter (\<lambda>r. sp = ''Any'' \<or> dog_size (s r) = sp) cat = [] \<longrightarrow>
      (n_clicks \<noteq> 0 \<and> nb \<noteq> [] \<and> neighborhoods nb = Some nd \<longrightarrow>
         update_recommendations neighborhoods cat n_clicks (Some nb) sp pp s
           = (s, Inr (ResultsLayout nb nd [] None)))"
    using b imp by (simp add: update_recommendations_def)
  from a b c imp show ?thesis by blast
qed

text \<open>
  C8 at concrete inputs: the name Marina is absent from a catalog that holds Mission, and
  the catalog of the example dog has no Small dog.
\<close>

theorem not_found_and_empty_result_witness:
  "[''Mission'' \<mapsto> example_neighborhood] ''Marina'' = None \<and>
   update_recommendations [''Mission'' \<mapsto> example_neighborhood] (catalog_refs [example_dog])
     1 (Some ''Marina'') ''Any'' ''Medium'' (catalog_store [example_dog])
     = (catalog_store [example_dog], Inr (NotFound ''Marina'')) \<and>
   filter (\<lambda>r. ''Small'' = ''Any'' \<or> dog_size (catalog_store [example_dog] r) = ''Small'')
     (catalog_refs [example_dog]) = [] \<and>
   update_recommendations [''Mission'' \<mapsto> example_neighborhood] (catalog_refs [example_dog])
     1 (Some ''Mission'') ''Small'' ''Medium'' (catalog_store [example_dog])
     = (catalog_store [example_dog],
        Inr (ResultsLayout ''Mission'' example_neighborhood [] None))"
proof -
  have h1: "[''Mission'' \<mapsto> example_neighborhood] ''Marina'' = None" by simp
  have h2: "filter (\<lambda>r. ''Small'' = ''Any'' \<or> dog_size (catalog_store [example_dog] r) = ''Small'')
     (catalog_refs [example_dog]) = []"
    by (simp add: catalog_refs_def catalog_store_def)
  have h3: "(1::int) \<noteq> 0 \<and> ''Marina'' \<noteq> []" by simp
  have h4: "(1::int) \<noteq> 0 \<and> ''Mission'' \<noteq> [] \<and>
     [''Mission'' \<mapsto> example_neighborhood] ''Mission'' = Some example_neighborhood" by simp
  from not_found_and_empty_result [of "[''Mission'' \<mapsto> example_neighborhood]" "''Marina''"
      "catalog_refs [example_dog]" 1 "''Any''" "''Medium''" "catalog_store [example_dog]"
      example_neighborhood] h1 h3
  have a: "update_recommendations [''Mission'' \<mapsto> example_neighborhood] (catalog_refs [example_dog])
     1 (Some ''Marina'') ''Any'' ''Medium'' (catalog_store [example_dog])
     = (catalog_store [example_dog], Inr (NotFound ''Marina''))"
    by blast
  from not_found_and_empty_result [of "[''Mission'' \<mapsto> example_neighborhood]" "''Mission''"
      "catalog_refs [example_dog]" 1 "''Small''" "''Medium''" "catalog_store [example_dog]"
      example_neighborhood] h2 h4
  have b: "update_recommendations [''Mission'' \<mapsto> example_neighborhood] (catalog_refs [example_dog])
     1 (Some ''Mission'') ''Small'' ''Medium'' (catalog_store [example_dog])
     = (catalog_store [example_dog],
        Inr (ResultsLayout ''Mission'' example_neighborhood [] None))"
    by blast
  from h1 h2 a b show ?thesis by blast
qed

section \<open>C9: determinism across successive requests\<close>

text \<open>
  C9: a request run on the store that an identical request has left behind returns what
  that request returned: the same outcome (the same dogs in the same order with the same
  scores, and the same impact metrics, or the same error) and the same store.
\<close>

theorem recommendations_deterministic:
  "update_recommendations neighborhoods cat n_clicks nbhd sp pp
     (fst (update_recommendations neighborhoods cat n_clicks nbhd sp pp s))
   = update_recommendations neighborhoods cat n_clicks nbhd sp pp s"
proof (cases "n_clicks = 0 \<or> nbhd = None \<or> nbhd = Some []")
  case True
  then show ?thesis by (simp add: update_recommendations_def)
next
  case False
  then obtain nb where sel: "n_clicks \<noteq> 0" "nbhd = Some nb" "nb \<noteq> []"
    by (cases nbhd) simp_all
  show ?thesis
  proof (cases "neighborhoods nb")
    case None
    with sel show ?thesis by (simp add: update_recommendations_def)
  next
    case (Some nd)
    obtain s1 out where run: "get_personalized_recommendations nd sp pp cat s = (s1, out)"
      by (cases "get_personalized_recommendations nd sp pp cat s") blast
    have again: "get_personalized_recommendations nd sp pp cat s1 = (s1, out)"
      using run by (rule recommendations_again)
    have first: "fst (update_recommendations neighborhoods cat n_clicks nbhd sp pp s) = s1"
      using sel Some run
      by (simp add: update_recommendations_def Let_def split: sum.splits)
    have "update_recommendations neighborhoods cat n_clicks nbhd sp pp s1
        = update_recommendations neighborhoods cat n_clicks nbhd sp pp s"
      using sel Some run again
      by (simp add: update_recommendations_def)
    then show ?thesis by (simp only: first)
  qed
qed

text \<open>C9 at a concrete input: two successive requests for Mission on the example catalog.\<close>

theorem recommendations_deterministic_witness:
  "update_recommendations [''Mission'' \<mapsto> example_neighborhood] (catalog_refs [example_dog])
     1 (Some ''Mission'') ''Any'' ''Medium''
     (fst (update_recommendations [''Mission'' \<mapsto> example_neighborhood]
             (catalog_refs [example_dog]) 1 (Some ''Mission'') ''Any'' ''Medium''
             (catalog_store [example_dog])))
   = update_recommendations [''Mission'' \<mapsto> example_neighborhood] (catalog_refs [example_dog])
       1 (Some ''Mission'') ''Any'' ''Medium'' (catalog_store [example_dog])"
  by (rule recommendations_deterministic)

section \<open>C10: the protection score floor and its consequence\<close>

text \<open>
  C10: every dog produced by the dog profile builder has a protection score of at least
  40, so that the store and catalog built from them have that floor on every catalog
  entry. A request run on any store with that floor, whatever earlier requests have
  written to it, keeps the floor, whether it returns a list or an error; and when it
  returns a non-empty list, every returned dog has
  \<open>monthly_exercise = 60 + 0.5 * protection_score\<close>, which is at least 80 and so above
  75, and the impact record exists and has \<^verbatim>\<open>community_connections\<close> equal to \<open>High\<close>:
  the \<open>Medium\<close> branch is not reached.
\<close>

theorem community_connections_always_high:
  assumes floor: "\<forall>r\<in>set cat. 40 \<le> protection_score (s r)"
    and run: "get_personalized_recommendations nd sp pp cat s = (s1, out)"
  shows "(\<forall>d\<in>set (process_dog_data sf_orgs rows). 40 \<le> protection_score d) \<and>
     (\<forall>r\<in>set (catalog_refs (process_dog_data sf_orgs rows)).
        40 \<le> protection_score (catalog_store (process_dog_data sf_orgs rows) r)) \<and>
     (\<forall>r\<in>set cat. 40 \<le> protection_score (s1 r)) \<and>
     (\<forall>recs. out = Inr recs \<and> recs \<noteq> [] \<longrightarrow>
        (\<forall>r\<in>set recs. \<exists>e. monthly_exercise (s1 r) = Some e \<and>
                           e = 60 + 0.5 * protection_score (s1 r) \<and> 80 \<le> e \<and> 75 < e) \<and>
        (\<exists>m. calculate_impact_metrics nd (map s1 recs) = Inr (Some m) \<and>
             community_connections m = ''High''))"
proof -
  have built: "\<forall>d\<in>set (process_dog_data sf_orgs rows). 40 \<le> protection_score d"
    using process_dog_data_protection_score by blast
  have kept: "\<forall>r\<in>set cat. 40 \<le> protection_score (s1 r)"
    using floor recommendations_static [OF run] by simp
  have high: "\<forall>recs. out = Inr recs \<and> recs \<noteq> [] \<longrightarrow>
        (\<forall>r\<in>set recs. \<exists>e. monthly_exercise (s1 r) = Some e \<and>
                           e = 60 + 0.5 * protection_score (s1 r) \<and> 80 \<le> e \<and> 75 < e) \<and>
        (\<exists>m. calculate_impact_metrics nd (map s1 recs) = Inr (Some m) \<and>
             community_connections m = ''High'')"
  proof (intro allI impI)
    fix recs assume a: "out = Inr recs \<and> recs \<noteq> []"
    then have run': "get_personalized_recommendations nd sp pp cat s = (s1, Inr recs)"
      using run by simp
    note sub = recommendations_subset [OF run']
    have ex: "\<forall>r\<in>set recs. \<exists>e. monthly_exercise (s1 r) = Some e \<and>
                        e = 60 + 0.5 * protection_score (s1 r) \<and> 80 \<le> e \<and> 75 < e"
    proof
      fix r assume r: "r \<in> set recs"
      then have "r \<in> set cat" using sub(1) by blast
      then have p: "40 \<le> protection_score (s1 r)" using kept by blast
      have "score_dog nd pp (s1 r) = Inr (s1 r)" using sub(2) r by blast
      from score_dog_fields(1) [OF this]
      have "monthly_exercise (s1 r) = Some (60 + protection_score (s1 r) * 0.5)" .
      with p show "\<exists>e. monthly_exercise (s1 r) = Some e \<and>
                        e = 60 + 0.5 * protection_score (s1 r) \<and> 80 \<le> e \<and> 75 < e"
        by simp
    qed
    obtain top rest where recs: "recs = top # rest"
      using a by (cases recs) simp_all
    have fx: "score_dog nd pp (s1 top) = Inr (s1 top)"
      using sub(2) recs by simp
    obtain e where e: "monthly_exercise (s1 top) = Some e" "80 \<le> e"
      using ex recs by auto
    obtain de where de: "deterrent_effect (s1 top) = Some de"
      using score_dog_fields(3) [OF fx] by blast
    have si: "safety_improvement (s1 top) = Some (min 30 (protection_score (s1 top) * 0.3))"
      using score_dog_fields(2) [OF fx] .
    have "\<exists>m. calculate_impact_metrics nd (map s1 recs) = Inr (Some m) \<and>
          community_connections m = ''High''"
      using e de si by (simp add: recs calculate_impact_metrics_def Let_def)
    with ex show "(\<forall>r\<in>set recs. \<exists>e. monthly_exercise (s1 r) = Some e \<and>
                           e = 60 + 0.5 * protection_score (s1 r) \<and> 80 \<le> e \<and> 75 < e) \<and>
        (\<exists>m. calculate_impact_metrics nd (map s1 recs) = Inr (Some m) \<and>
             community_connections m = ''High'')"
      by blast
  qed
  from built built_catalog_floor kept high show ?thesis by blast
qed

text \<open>
  C10 at a concrete input: a second request on the store that a first request on the
  example dog's catalog has left behind, in which the dog already carries its scores.
\<close>

theorem community_connections_always_high_witness:
  "list_all (\<lambda>r. 40 \<le> protection_score
       (((catalog_store [example_dog])
           (0 := example_dog\<lparr>compatibility_score := Some 67.3, safety_improvement := Some 30,
                   monthly_exercise := Some 110, deterrent_effect := Some ''High''\<rparr>)) r))
     (catalog_refs [example_dog]) \<and>
   get_personalized_recommendations example_neighborhood ''Any'' ''Medium''
     (catalog_refs [example_dog])
     ((catalog_store [example_dog])
        (0 := example_dog\<lparr>compatibility_score := Some 67.3, safety_improvement := Some 30,
                monthly_exercise := Some 110, deterrent_effect := Some ''High''\<rparr>))
   = ((catalog_store [example_dog])
        (0 := example_dog\<lparr>compatibility_score := Some 67.3, safety_improvement := Some 30,
                monthly_exercise := Some 110, deterrent_effect := Some ''High''\<rparr>),
      Inr [0]) \<and>
   [0::nat] \<noteq> [] \<and>
   (\<exists>m. calculate_impact_metrics example_neighborhood
          (map ((catalog_store [example_dog])
                  (0 := example_dog\<lparr>compatibility_score := Some 67.3,
                          safety_improvement := Some 30, monthly_exercise := Some 110,
                          deterrent_effect := Some ''High''\<rparr>)) [0]) = Inr (Some m) \<and>
        community_connections m = ''High'')"
proof -
  let ?s = "(catalog_store [example_dog])
        (0 := example_dog\<lparr>compatibility_score := Some 67.3, safety_improvement := Some 30,
                monthly_exercise := Some 110, deterrent_effect := Some ''High''\<rparr>)"
  have run: "get_personalized_recommendations example_neighborhood ''Any'' ''Medium''
     (catalog_refs [example_dog]) ?s = (?s, Inr [0])"
    using recommend_example by (rule recommendations_again)
  have floor: "\<forall>r\<in>set (catalog_refs [example_dog]). 40 \<le> protection_score (?s r)"
    by (simp add: catalog_refs_def)
  then have floor': "list_all (\<lambda>r. 40 \<le> protection_score (?s r)) (catalog_refs [example_dog])"
    by (simp add: list_all_iff)
  have ne: "[0::nat] \<noteq> []" by simp
  from community_connections_always_high [OF floor run, of "[]" "[]"] ne
  have "\<exists>m. calculate_impact_metrics example_neighborhood (map ?s [0]) = Inr (Some m) \<and>
        community_connections m = ''High''"
    by blast
  with floor' run ne show ?thesis by blast
qed

end
